theory Spec2Isabelle
  imports Complex_Main
begin

section \<open>Python values and exceptions\<close>

text \<open>
  The sound module of the instrument is plain Python over floats, ints, lists and byte
  strings.  Floats are modelled by \<^typ>\<open>real\<close> (exact arithmetic: rounding of
  IEEE doubles is outside the model), Python's unbounded ints by \<^typ>\<open>int\<close>, and the
  elements of \<open>bytes\<close> and \<open>bytearray\<close> objects by ints in \<open>range(256)\<close>, which is
  what iterating over them yields.  Every exception the modelled code can raise is a
  constructor of \<open>py_error\<close>.
\<close>

datatype py_error =
  ValueError | ZeroDivisionError | OverflowError | NameError | TypeError
  | IndexError | AttributeError

text \<open>
  A pure function returns \<open>py_error + 'a\<close> (\<open>Inl\<close> is the raised exception).  A
  method that mutates an object and may raise half-way returns an \<open>outcome\<close>: the
  state the object (and the audio device) is left in, together with the way the call
  ended.
\<close>

datatype 'a outcome = Return 'a | Raise py_error 'a

text \<open>\<open>int(x)\<close> on a float truncates toward zero.\<close>

definition py_int :: "real \<Rightarrow> int" where
  "py_int x = (if 0 \<le> x then \<lfloor>x\<rfloor> else \<lceil>x\<rceil>)"

text \<open>
  \<open>xs[i] = v\<close> on a list: a negative index counts from the end, an index out of
  range raises \<open>IndexError\<close>.
\<close>

definition py_setitem :: "'a list \<Rightarrow> int \<Rightarrow> 'a \<Rightarrow> py_error + 'a list" where
  "py_setitem xs i v =
     (if 0 \<le> i \<and> i < int (length xs) then Inr (xs[nat i := v])
      else if - int (length xs) \<le> i \<and> i < 0 then Inr (xs[nat (int (length xs) + i) := v])
      else Inl IndexError)"

section \<open>The note table\<close>

text \<open>
  The dictionary literal \<open>NOTE\<close> (sound.py, lines 158-312), in the order of the source.
  \<open>NOTE k\<close> is \<open>None\<close> where Python's \<open>k in NOTE\<close> is false.
\<close>

definition NOTE_items :: "(string \<times> real) list" where
  "NOTE_items = [
    (''C0'', 16.35), (''D0'', 18.35), (''E0'', 20.60), (''F0'', 21.83),
    (''G0'', 24.50), (''A0'', 27.50), (''B0'', 30.87), (''C1'', 32.70),
    (''D1'', 36.71), (''E1'', 41.20), (''F1'', 43.65), (''G1'', 49.00),
    (''A1'', 55.00), (''B1'', 61.74), (''C2'', 65.41), (''D2'', 73.42),
    (''E2'', 82.41), (''F2'', 87.31), (''G2'', 98.00), (''A2'', 110.00),
    (''B2'', 123.47), (''C3'', 130.81), (''D3'', 146.83), (''E3'', 164.81),
    (''F3'', 174.61), (''G3'', 196.00), (''A3'', 220.00), (''B3'', 246.94),
    (''C4'', 261.63), (''D4'', 293.66), (''E4'', 329.63), (''F4'', 349.23),
    (''G4'', 392.00), (''A4'', 440.00), (''B4'', 493.88), (''C5'', 523.25),
    (''D5'', 587.33), (''E5'', 659.25), (''F5'', 698.46), (''G5'', 783.99),
    (''A5'', 880.00), (''B5'', 987.77), (''C6'', 1046.50), (''D6'', 1174.66),
    (''E6'', 1318.51), (''F6'', 1396.91), (''G6'', 1567.98), (''A6'', 1760.00),
    (''B6'', 1975.53), (''C7'', 2093.00), (''D7'', 2349.32), (''E7'', 2637.02),
    (''F7'', 2793.83), (''G7'', 3135.96), (''A7'', 3520.00), (''B7'', 3951.07),
    (''C8'', 4186.01), (''D8'', 4698.63), (''E8'', 5274.04), (''F8'', 5587.65),
    (''G8'', 6271.93), (''A8'', 7040.00), (''B8'', 7902.13), (''C#0'', 17.32),
    (''Db0'', 17.32), (''D#0'', 19.45), (''Eb0'', 19.45), (''F#0'', 23.12),
    (''Gb0'', 23.12), (''G#0'', 25.96), (''Ab0'', 25.96), (''A#0'', 29.14),
    (''Bb0'', 29.14), (''C#1'', 34.65), (''Db1'', 34.65), (''D#1'', 38.89),
    (''Eb1'', 38.89), (''F#1'', 46.25), (''Gb1'', 46.25), (''G#1'', 51.91),
    (''Ab1'', 51.91), (''A#1'', 58.27), (''Bb1'', 58.27), (''C#2'', 69.30),
    (''Db2'', 69.30), (''D#2'', 77.78), (''Eb2'', 77.78), (''F#2'', 92.50),
    (''Gb2'', 92.50), (''G#2'', 103.83), (''Ab2'', 103.83), (''A#2'', 116.54),
    (''Bb2'', 116.54), (''C#3'', 138.59), (''Db3'', 138.59), (''D#3'', 155.56),
    (''Eb3'', 155.56), (''F#3'', 185.00), (''Gb3'', 185.00), (''G#3'', 207.65),
    (''Ab3'', 207.65), (''A#3'', 233.08), (''Bb3'', 233.08), (''C#4'', 277.18),
    (''Db4'', 277.18), (''D#4'', 311.13), (''Eb4'', 311.13), (''F#4'', 369.99),
    (''Gb4'', 369.99), (''G#4'', 415.30), (''Ab4'', 415.30), (''A#4'', 466.16),
    (''Bb4'', 466.16), (''C#5'', 554.37), (''Db5'', 554.37), (''D#5'', 622.25),
    (''Eb5'', 622.25), (''F#5'', 739.99), (''Gb5'', 739.99), (''G#5'', 830.61),
    (''Ab5'', 830.61), (''A#5'', 932.33), (''Bb5'', 932.33), (''C#6'', 1108.73),
    (''Db6'', 1108.73), (''D#6'', 1244.51), (''Eb6'', 1244.51), (''F#6'', 1479.98),
    (''Gb6'', 1479.98), (''G#6'', 1661.22), (''Ab6'', 1661.22), (''A#6'', 1864.66),
    (''Bb6'', 1864.66), (''C#7'', 2217.46), (''Db7'', 2217.46), (''D#7'', 2489.02),
    (''Eb7'', 2489.02), (''F#7'', 2959.96), (''Gb7'', 2959.96), (''G#7'', 3322.44),
    (''Ab7'', 3322.44), (''A#7'', 3729.31), (''Bb7'', 3729.31), (''C#8'', 4434.92),
    (''Db8'', 4434.92), (''D#8'', 4978.03), (''Eb8'', 4978.03), (''F#8'', 5919.91),
    (''Gb8'', 5919.91), (''G#8'', 6644.88), (''Ab8'', 6644.88), (''A#8'', 7458.62),
    (''Bb8'', 7458.62)]"

definition NOTE :: "string \<rightharpoonup> real" where
  "NOTE = map_of NOTE_items"

text \<open>
  The spellings of the five accidentals of an octave, sharp name first, and the octave
  digits of the table: the names the enharmonic pairs are made of.
\<close>

definition enharmonic_pairs :: "(string \<times> string) list" where
  "enharmonic_pairs =
     [(''C#'', ''Db''), (''D#'', ''Eb''), (''F#'', ''Gb''), (''G#'', ''Ab''), (''A#'', ''Bb'')]"

definition octaves :: "string list" where
  "octaves = map (\<lambda>c. [c]) ''012345678''"

section \<open>Waveform synthesis\<close>

text \<open>
  The frequency handed to an instrument is a number, or (through the last branch of
  \<open>Sound.set_pitch\<close>) an object of another type, kept as it is; \<open>FOther\<close> stands for
  such an object, hashable and not a number, on which float arithmetic raises
  \<open>TypeError\<close> (\<open>None\<close>, a string, a tuple).
\<close>

datatype pyfreq = FNum real | FOther

type_synonym instrument_fn = "real list \<Rightarrow> pyfreq \<Rightarrow> py_error + real list"

text \<open>
  The \<open>instrument\<close> argument of \<open>gen_custom_freq\<close>: \<open>None\<close>, a note name, a number, or
  (as its docstring says) a function of the time axis and the frequency.  The
  \<open>instrument_strength\<close> argument: a number, a string, or anything else.
\<close>

datatype instr_arg = INone | IStr string | INum real | IFun instrument_fn

datatype strength_arg = KNum real | KStr string | KOther

text \<open>\<open>BASE_SOUND\<close> (line 23): a sine at every point of the time axis.\<close>

definition BASE_SOUND :: instrument_fn where
  "BASE_SOUND x freq =
     (case freq of
        FNum f \<Rightarrow> Inr (map (\<lambda>i. sin (2 * pi * f * i)) x)
      | FOther \<Rightarrow> if x = [] then Inr [] else Inl TypeError)"

text \<open>
  \<open>freq_modulator\<close> (lines 34-47).  The local \<open>strength\<close> is bound only for a number
  and for a string that is a note name (\<open>strength_of\<close>); otherwise the first use of it
  inside \<open>instrument\<close> raises \<open>NameError\<close>, which needs a non-empty time axis.  On an
  empty time axis \<open>max\<close> of the empty \<open>res\<close> raises \<open>ValueError\<close>.
\<close>

definition strength_of :: "strength_arg \<Rightarrow> real option" where
  "strength_of k = (case k of KNum v \<Rightarrow> Some v | KStr s \<Rightarrow> NOTE s | KOther \<Rightarrow> None)"

definition freq_modulator :: "real \<Rightarrow> strength_arg \<Rightarrow> instrument_fn" where
  "freq_modulator md k x freq =
     (let carrier = map (\<lambda>i. 2 * pi * i * md) x
      in if x = [] then Inl ValueError
         else case strength_of k of
           None \<Rightarrow> Inl NameError
         | Some strength \<Rightarrow>
             (case freq of
                FOther \<Rightarrow> Inl TypeError
              | FNum f \<Rightarrow>
                  let modulator = map (\<lambda>i. strength * sin (2 * pi * i * f)) x;
                      res = map (\<lambda>(c, m). cos (c + m)) (zip carrier modulator);
                      maximum = Max (set (map abs res))
                  in if maximum = 0 then Inl ZeroDivisionError
                     else Inr (map (\<lambda>r. r / maximum) res)))"

subsection \<open>The stages of \<open>gen_custom_freq\<close>\<close>

text \<open>Lines 57-66: the instrument argument becomes a function.\<close>

definition resolve_instrument :: "instr_arg \<Rightarrow> strength_arg \<Rightarrow> instrument_fn" where
  "resolve_instrument instrument instrument_strength =
     (case instrument of
        IStr s \<Rightarrow>
          (case NOTE s of
             Some v \<Rightarrow> freq_modulator v instrument_strength
           | None \<Rightarrow> BASE_SOUND)
      | INum v \<Rightarrow> freq_modulator \<bar>v\<bar> instrument_strength
      | INone \<Rightarrow> BASE_SOUND
      | IFun f \<Rightarrow> f)"

text \<open>
  Line 69, \<open>t = [i / fs for i in range(0, n)]\<close>.  The division cannot raise: for
  \<open>fs = 0\<close> line 68 gives \<open>n = int(seconds * 0) = 0\<close> and the range is empty.
\<close>

definition time_axis :: "real \<Rightarrow> int \<Rightarrow> real list" where
  "time_axis fs n = map (\<lambda>i. real i / fs) [0..<nat n]"

text \<open>
  Lines 72 and 74: \<open>max\<close> of an empty sequence raises \<open>ValueError\<close>; the samples are
  scaled by the volume and \<open>2**15 - 1\<close>, truncated by \<open>int\<close>, and only then divided by
  the peak, a float, so that a peak of zero raises \<open>ZeroDivisionError\<close>.
\<close>

definition scale_audio :: "real list \<Rightarrow> real \<Rightarrow> py_error + real list" where
  "scale_audio note vol_factor =
     (if note = [] then Inl ValueError
      else let maximum = Max (set (map abs note))
           in if maximum = 0 then Inl ZeroDivisionError
              else Inr (map (\<lambda>i. real_of_int (py_int (i * vol_factor * (2 ^ 15 - 1))) / maximum)
                         note))"

text \<open>Lines 77 and 79: the value of the fade at step \<open>i\<close> of \<open>cutoff\<close>.\<close>

definition fade :: "int \<Rightarrow> int \<Rightarrow> real" where
  "fade i cutoff = ln (real_of_int i / real_of_int cutoff * 7 + 1) * ((1 / 3) * (1 / ln 2))"

text \<open>
  Lines 78-81: the loop over \<open>range(cutoff)\<close>, writing the fade at both ends of
  \<open>dynamics\<close>, one step after the other.
\<close>

fun fade_loop :: "int \<Rightarrow> int \<Rightarrow> nat list \<Rightarrow> real list \<Rightarrow> py_error + real list" where
  "fade_loop n cutoff [] dynamics = Inr dynamics"
| "fade_loop n cutoff (i # rest) dynamics =
     (let x = fade (int i) cutoff
      in case py_setitem dynamics (n - int i - 1) x of
           Inl e \<Rightarrow> Inl e
         | Inr d1 \<Rightarrow>
             (case py_setitem d1 (int i) x of
                Inl e \<Rightarrow> Inl e
              | Inr d2 \<Rightarrow> fade_loop n cutoff rest d2))"

text \<open>
  Lines 75-81 as a whole: \<open>dynamics\<close> starts as \<open>n\<close> ones, \<open>cutoff\<close> is the smaller of
  the number of samples and \<open>int(fs * cutoff_factor)\<close>.
\<close>

definition envelope :: "int \<Rightarrow> nat \<Rightarrow> real \<Rightarrow> real \<Rightarrow> py_error + real list" where
  "envelope n len_audio fs cutoff_factor =
     (let dynamics = replicate (nat n) 1;
          cutoff = min (int len_audio) (py_int (fs * cutoff_factor))
      in fade_loop n cutoff [0..<nat cutoff] dynamics)"

text \<open>
  Line 82: \<open>int(a * d).to_bytes(2, "little", signed=True)\<close> for every pair of
  \<open>zip(audio, dynamics)\<close>, joined.  \<open>to_bytes\<close> raises \<open>OverflowError\<close> outside the
  signed 16-bit range; inside, the two bytes are the two's complement, low byte first.
\<close>

definition to_bytes2 :: "int \<Rightarrow> py_error + int list" where
  "to_bytes2 v =
     (if - 32768 \<le> v \<and> v \<le> 32767 then Inr [v mod 256, v div 256 mod 256]
      else Inl OverflowError)"

fun encode :: "(real \<times> real) list \<Rightarrow> py_error + int list" where
  "encode [] = Inr []"
| "encode ((a, d) # rest) =
     (case to_bytes2 (py_int (a * d)) of
        Inl e \<Rightarrow> Inl e
      | Inr b \<Rightarrow> (case encode rest of Inl e \<Rightarrow> Inl e | Inr bs \<Rightarrow> Inr (b @ bs)))"

text \<open>
  \<open>gen_custom_freq\<close> (lines 50-83).  The \<open>lru_cache\<close> around it returns what the body
  computes, the body being a function of its arguments only.
\<close>

definition gen_custom_freq ::
  "pyfreq \<Rightarrow> real \<Rightarrow> real \<Rightarrow> real \<Rightarrow> instr_arg \<Rightarrow> strength_arg \<Rightarrow> real \<Rightarrow> py_error + int list"
where
  "gen_custom_freq frequency seconds vol_factor fs instrument instrument_strength cutoff_factor =
     (let instr = resolve_instrument instrument instrument_strength;
          n = py_int (seconds * fs);
          t = time_axis fs n
      in case instr t frequency of
           Inl e \<Rightarrow> Inl e
         | Inr note \<Rightarrow>
             (case scale_audio note vol_factor of
                Inl e \<Rightarrow> Inl e
              | Inr audio \<Rightarrow>
                  (case envelope n (length audio) fs cutoff_factor of
                     Inl e \<Rightarrow> Inl e
                   | Inr dynamics \<Rightarrow> encode (zip audio dynamics))))"

text \<open>
  Reading two bytes back as a signed little-endian 16-bit value, as the playback
  device does.
\<close>

definition from_bytes2 :: "int \<Rightarrow> int \<Rightarrow> int" where
  "from_bytes2 lo hi = (let u = lo + 256 * hi in if 32768 \<le> u then u - 65536 else u)"

text \<open>
  The instrument arguments that \<open>gen_custom_freq\<close> resolves itself (\<open>None\<close>, a note
  name, a number), as opposed to a function supplied by the caller.
\<close>

definition builtin :: "instr_arg \<Rightarrow> bool" where
  "builtin instrument = (case instrument of IFun f \<Rightarrow> False | _ \<Rightarrow> True)"

text \<open>Every element of a list lies between 0 and 1.\<close>

definition unit_interval :: "real list \<Rightarrow> bool" where
  "unit_interval xs = list_all (\<lambda>x. 0 \<le> x \<and> x \<le> 1) xs"

text \<open>
  The output sample in the words of the spec (section 4.3): the product of the
  normalized sample, the volume, the envelope and 32767, rounded and clamped to the
  signed 16-bit range.  It is compared below with what the code emits.
\<close>

definition spec_sample :: "real \<Rightarrow> real \<Rightarrow> real \<Rightarrow> int" where
  "spec_sample normalized volume env =
     max (- 32768) (min 32767 (round (normalized * volume * env * 32767)))"

section \<open>The playback device\<close>

text \<open>
  Modelled from the spec: the platform audio backend (the \<open>simpleaudio\<close> library:
  \<open>play_buffer\<close> and the \<open>stop\<close>, \<open>is_playing\<close> and \<open>wait_done\<close> methods of the object it
  returns), which is not part of the repository.  The spec describes it as
  submit-buffer, request-stop, query-is-active and block-until-inactive, each
  submission being bound to one opaque handle.  The device is the set of handles whose
  submission is still sounding and a counter for the next handle; a submission always
  succeeds, a stop takes effect before it returns, and waiting returns when the handle
  is no longer sounding.
\<close>

record device =
  live :: "nat set"
  next_id :: nat

text \<open>
  Modelled from the spec: submit-buffer.  The new handle is the counter's value and
  starts sounding.
\<close>

definition play_buffer :: "int list \<Rightarrow> real \<Rightarrow> device \<Rightarrow> nat \<times> device" where
  "play_buffer audio rate d =
     (next_id d, d\<lparr>live := insert (next_id d) (live d), next_id := Suc (next_id d)\<rparr>)"

text \<open>Modelled from the spec: request-stop.  The handle is silent when the call returns.\<close>

definition handle_stop :: "nat \<Rightarrow> device \<Rightarrow> device" where
  "handle_stop h d = d\<lparr>live := live d - {h}\<rparr>"

text \<open>Modelled from the spec: query-is-active.\<close>

definition handle_is_playing :: "nat \<Rightarrow> device \<Rightarrow> bool" where
  "handle_is_playing h d = (h \<in> live d)"

text \<open>
  Modelled from the spec: block-until-inactive.  The call returns once the handle is
  silent.
\<close>

definition handle_wait_done :: "nat \<Rightarrow> device \<Rightarrow> device" where
  "handle_wait_done h d = d\<lparr>live := live d - {h}\<rparr>"

section \<open>The class \<open>Sound\<close>\<close>

text \<open>
  The attributes of a \<open>Sound\<close> object, each field named \<open>sound_\<close> and the attribute.
  \<open>pitch\<close> and \<open>instrument\<close> are assigned by setters that may leave them alone, so
  they are optional: \<open>None\<close> is an attribute that was never assigned, and reading it
  raises \<open>AttributeError\<close>.  \<open>player\<close> is read with \<open>getattr(self, 'player', None)\<close>:
  a missing attribute and the value \<open>None\<close> are the same to the code.
\<close>

record sound =
  sound_pitch :: "pyfreq option"
  sound_instrument :: "instr_arg option"
  sound_vol_factor :: real
  sound_instrument_strength :: strength_arg
  sound_cutoff_factor :: real
  sound_seconds :: real
  sound_fs :: real
  sound_size :: int
  sound_audio :: "int list"
  sound_player :: "nat option"

datatype pitch_arg = PStr string | PNum real | POther

text \<open>The setters (lines 346-371).\<close>

definition set_pitch :: "sound \<Rightarrow> pitch_arg \<Rightarrow> sound" where
  "set_pitch self pitch =
     (case pitch of
        PStr name \<Rightarrow>
          (case NOTE name of
             Some f \<Rightarrow> self\<lparr>sound_pitch := Some (FNum f)\<rparr>
           | None \<Rightarrow> self)
      | PNum x \<Rightarrow> self\<lparr>sound_pitch := Some (FNum \<bar>x\<bar>)\<rparr>
      | POther \<Rightarrow> self\<lparr>sound_pitch := Some FOther\<rparr>)"

text \<open>
  \<open>set_instrument\<close> has no final \<open>else\<close>: an argument that is neither \<open>None\<close>, a
  string nor a number (here \<open>IFun\<close>) changes nothing.
\<close>

definition set_instrument :: "sound \<Rightarrow> instr_arg \<Rightarrow> sound" where
  "set_instrument self instrument =
     (case instrument of
        INone \<Rightarrow> self\<lparr>sound_instrument := Some INone\<rparr>
      | IStr name \<Rightarrow>
          (case NOTE name of
             Some f \<Rightarrow> self\<lparr>sound_instrument := Some (INum f)\<rparr>
           | None \<Rightarrow> self)
      | INum x \<Rightarrow> self\<lparr>sound_instrument := Some (INum \<bar>x\<bar>)\<rparr>
      | IFun f \<Rightarrow> self)"

definition set_instrument_strength :: "sound \<Rightarrow> strength_arg \<Rightarrow> sound" where
  "set_instrument_strength self strength = self\<lparr>sound_instrument_strength := strength\<rparr>"

definition set_volume :: "sound \<Rightarrow> real \<Rightarrow> sound" where
  "set_volume self vol = self\<lparr>sound_vol_factor := vol\<rparr>"

definition set_cutoff_factor :: "sound \<Rightarrow> real \<Rightarrow> sound" where
  "set_cutoff_factor self factor = self\<lparr>sound_cutoff_factor := factor\<rparr>"

text \<open>The transport methods (lines 398-416).\<close>

definition is_playing :: "sound \<Rightarrow> device \<Rightarrow> bool" where
  "is_playing self d =
     (case sound_player self of Some h \<Rightarrow> handle_is_playing h d | None \<Rightarrow> False)"

definition stop :: "sound \<Rightarrow> device \<Rightarrow> sound \<times> device" where
  "stop self d =
     (case sound_player self of
        Some h \<Rightarrow> (self\<lparr>sound_player := None\<rparr>, handle_stop h d)
      | None \<Rightarrow> (self, d))"

definition play :: "sound \<Rightarrow> device \<Rightarrow> sound \<times> device" where
  "play self d =
     (let (s1, d1) = (if is_playing self d then stop self d else (self, d));
          (h, d2) = play_buffer (sound_audio s1) (sound_fs s1) d1
      in (s1\<lparr>sound_player := Some h\<rparr>, d2))"

definition wait_done :: "sound \<Rightarrow> device \<Rightarrow> sound \<times> device" where
  "wait_done self d =
     (case sound_player self of
        Some h \<Rightarrow> (self\<lparr>sound_player := None\<rparr>, handle_wait_done h d)
      | None \<Rightarrow> (self, d))"

text \<open>
  The loop \<open>for i, a in enumerate(new_audio): self.audio[i] = a\<close> of both
  \<open>update_audio\<close> methods: the bytes are written in place, one at a time, and a write past
  the end of the \<open>bytearray\<close> raises \<open>IndexError\<close> and leaves what was written.
\<close>

fun copy_bytes :: "nat \<Rightarrow> int list \<Rightarrow> int list \<Rightarrow> py_error option \<times> int list" where
  "copy_bytes i [] buf = (None, buf)"
| "copy_bytes i (a # rest) buf =
     (if i < length buf then copy_bytes (Suc i) rest (buf[i := a])
      else (Some IndexError, buf))"

text \<open>
  \<open>update_audio\<close> (lines 386-396).  The call passes six of the seven parameters:
  \<open>cutoff_factor\<close> is not among them, so \<open>gen_custom_freq\<close> runs with its default, 0.01.
\<close>

definition update_audio :: "sound \<Rightarrow> sound outcome" where
  "update_audio self =
     (case sound_pitch self of
        None \<Rightarrow> Raise AttributeError self
      | Some frequency \<Rightarrow>
          (case sound_instrument self of
             None \<Rightarrow> Raise AttributeError self
           | Some instrument \<Rightarrow>
               (case gen_custom_freq frequency (sound_seconds self) (sound_vol_factor self)
                       (sound_fs self) instrument (sound_instrument_strength self) (1 / 100) of
                  Inl e \<Rightarrow> Raise e self
                | Inr new_audio \<Rightarrow>
                    (case copy_bytes 0 new_audio (sound_audio self) of
                       (None, buf) \<Rightarrow> Return (self\<lparr>sound_audio := buf\<rparr>)
                     | (Some e, buf) \<Rightarrow> Raise e (self\<lparr>sound_audio := buf\<rparr>)))))"

text \<open>
  \<open>change_duration\<close> (lines 373-384).  \<open>bytearray\<close> of a negative count raises
  \<open>ValueError\<close>, after \<open>size\<close> has been assigned.
\<close>

definition change_duration ::
  "sound \<Rightarrow> real \<Rightarrow> real option \<Rightarrow> device \<Rightarrow> (sound \<times> device) outcome"
where
  "change_duration self seconds fs_arg d =
     (let (s1, d1) = (if is_playing self d then stop self d else (self, d));
          s2 = s1\<lparr>sound_player := None\<rparr>;
          fs = (case fs_arg of None \<Rightarrow> sound_fs s2 | Some r \<Rightarrow> r);
          s3 = s2\<lparr>sound_size := py_int (seconds * fs)\<rparr>
      in if sound_size s3 * 2 < 0 then Raise ValueError (s3, d1)
         else
           (case update_audio
                   (s3\<lparr>sound_audio := replicate (nat (sound_size s3 * 2)) 0,
                       sound_seconds := seconds, sound_fs := fs\<rparr>) of
              Return s4 \<Rightarrow> Return (s4, d1)
            | Raise e s4 \<Rightarrow> Raise e (s4, d1)))"

text \<open>
  \<open>Sound.__init__\<close> (lines 322-344), without the debug output.  The new object has no
  attribute yet; the fields of the record that the constructor assigns before anything
  reads them start at the value assigned.  An exception leaves no object.
\<close>

definition Sound_init ::
  "pitch_arg \<Rightarrow> real \<Rightarrow> real \<Rightarrow> real \<Rightarrow> bool option \<Rightarrow> instr_arg \<Rightarrow> strength_arg \<Rightarrow> real
     \<Rightarrow> device \<Rightarrow> py_error + sound \<times> device"
where
  "Sound_init pitch seconds vol_factor fs bg_play instrument instrument_strength cutoff_factor d =
     (let s0 = \<lparr>sound_pitch = None, sound_instrument = None, sound_vol_factor = vol_factor,
                sound_instrument_strength = instrument_strength,
                sound_cutoff_factor = cutoff_factor, sound_seconds = seconds, sound_fs = fs,
                sound_size = 0, sound_audio = [], sound_player = None\<rparr>;
          s1 = set_pitch s0 pitch;
          s2 = set_instrument s1 instrument;
          s3 = set_volume s2 vol_factor;
          s4 = set_instrument_strength s3 instrument_strength;
          s5 = set_cutoff_factor s4 cutoff_factor;
          s6 = s5\<lparr>sound_seconds := seconds, sound_fs := fs\<rparr>
      in case change_duration s6 seconds (Some fs) d of
           Raise e _ \<Rightarrow> Inl e
         | Return (s7, d1) \<Rightarrow>
             (case bg_play of
                None \<Rightarrow> Inr (s7, d1)
              | Some True \<Rightarrow> Inr (play s7 d1)
              | Some False \<Rightarrow> (let (s8, d2) = play s7 d1 in Inr (wait_done s8 d2))))"

section \<open>The class \<open>SoundSeq\<close>\<close>

text \<open>
  The attributes of a \<open>SoundSeq\<close> object, each field named \<open>seq_\<close> and the attribute.
  The members are held by value: the claims below concern one call at a time, in which
  no member is mutated.
\<close>

record soundseq =
  seq_sounds :: "sound list"
  seq_audio :: "int list"
  seq_fs :: real
  seq_size :: int
  seq_seconds :: real
  seq_player :: "nat option"

text \<open>What can stand to the right of \<open>+\<close>, or be handed to \<open>append\<close>.\<close>

datatype operand = OSound sound | OSeq soundseq | OOther

text \<open>The transport methods (lines 495-513).\<close>

definition seq_is_playing :: "soundseq \<Rightarrow> device \<Rightarrow> bool" where
  "seq_is_playing self d =
     (case seq_player self of Some h \<Rightarrow> handle_is_playing h d | None \<Rightarrow> False)"

definition seq_stop :: "soundseq \<Rightarrow> device \<Rightarrow> soundseq \<times> device" where
  "seq_stop self d =
     (case seq_player self of
        Some h \<Rightarrow> (self\<lparr>seq_player := None\<rparr>, handle_stop h d)
      | None \<Rightarrow> (self, d))"

definition seq_play :: "soundseq \<Rightarrow> device \<Rightarrow> soundseq \<times> device" where
  "seq_play self d =
     (let (q1, d1) = (if seq_is_playing self d then seq_stop self d else (self, d));
          (h, d2) = play_buffer (seq_audio q1) (seq_fs q1) d1
      in (q1\<lparr>seq_player := Some h\<rparr>, d2))"

definition seq_wait_done :: "soundseq \<Rightarrow> device \<Rightarrow> soundseq \<times> device" where
  "seq_wait_done self d =
     (case seq_player self of
        Some h \<Rightarrow> (self\<lparr>seq_player := None\<rparr>, handle_wait_done h d)
      | None \<Rightarrow> (self, d))"

text \<open>\<open>SoundSeq.update_audio\<close> (lines 489-493).\<close>

definition seq_update_audio :: "soundseq \<Rightarrow> soundseq outcome" where
  "seq_update_audio self =
     (let new_audio = concat (map sound_audio (seq_sounds self))
      in case copy_bytes 0 new_audio (seq_audio self) of
           (None, buf) \<Rightarrow> Return (self\<lparr>seq_audio := buf\<rparr>)
         | (Some e, buf) \<Rightarrow> Raise e (self\<lparr>seq_audio := buf\<rparr>))"

text \<open>
  \<open>SoundSeq.change_duration\<close> (lines 474-487): \<open>seq_rebuild\<close> is the part after the
  playback check (lines 477-487), which the constructor runs on an object that has no
  player yet.
\<close>

definition seq_rebuild :: "soundseq \<Rightarrow> soundseq outcome" where
  "seq_rebuild self =
     (let seconds = fold (\<lambda>s acc. acc + sound_seconds s) (seq_sounds self) 0;
          size = fold (\<lambda>s acc. acc + sound_size s) (seq_sounds self) 0
      in if size * 2 < 0 then Raise ValueError self
         else seq_update_audio
                (self\<lparr>seq_audio := replicate (nat (size * 2)) 0, seq_size := size,
                      seq_seconds := seconds\<rparr>))"

definition seq_change_duration :: "soundseq \<Rightarrow> device \<Rightarrow> (soundseq \<times> device) outcome" where
  "seq_change_duration self d =
     (let (q1, d1) = (if seq_is_playing self d then seq_stop self d else (self, d))
      in case seq_rebuild q1 of
           Return q2 \<Rightarrow> Return (q2, d1)
         | Raise e q2 \<Rightarrow> Raise e (q2, d1))"

text \<open>
  \<open>SoundSeq.__init__\<close> (lines 455-467), given a list of \<open>Sound\<close> objects.  The new
  object has no \<open>player\<close> attribute, so \<open>is_playing\<close> is false without asking the
  device, and \<open>change_duration\<close> is its rebuilding part.
\<close>

definition SoundSeq_init :: "sound list \<Rightarrow> real \<Rightarrow> py_error + soundseq" where
  "SoundSeq_init sounds fs =
     (case seq_rebuild \<lparr>seq_sounds = sounds, seq_audio = [], seq_fs = fs, seq_size = 0,
                        seq_seconds = 0, seq_player = None\<rparr> of
        Return q \<Rightarrow> Inr q
      | Raise e _ \<Rightarrow> Inl e)"

text \<open>\<open>SoundSeq.append\<close> (lines 469-472).\<close>

definition seq_append :: "soundseq \<Rightarrow> operand \<Rightarrow> device \<Rightarrow> (soundseq \<times> device) outcome" where
  "seq_append self other d =
     (case other of
        OSound s \<Rightarrow>
          if sound_fs s = seq_fs self
          then seq_change_duration (self\<lparr>seq_sounds := seq_sounds self @ [s]\<rparr>) d
          else Return (self, d)
      | OSeq q \<Rightarrow> Return (self, d)
      | OOther \<Rightarrow> Return (self, d))"

text \<open>
  \<open>Sound.__add__\<close> (lines 421-426) and \<open>SoundSeq.__add__\<close> (lines 518-523).  Both build
  the new sequence with the constructor's default rate, 8000.  In the first branch of
  \<open>SoundSeq.__add__\<close> the expression \<open>self.sounds + other\<close> adds a \<open>Sound\<close> to a list:
  \<open>list\<close> does not accept it and \<open>Sound\<close> has no \<open>__radd__\<close>, so Python raises
  \<open>TypeError\<close> before the constructor is called.
\<close>

definition sound_add :: "sound \<Rightarrow> operand \<Rightarrow> py_error + soundseq" where
  "sound_add self other =
     (case other of
        OSound s \<Rightarrow> SoundSeq_init [self, s] 8000
      | OSeq q \<Rightarrow> SoundSeq_init (self # seq_sounds q) 8000
      | OOther \<Rightarrow> Inl TypeError)"

definition seq_add :: "soundseq \<Rightarrow> operand \<Rightarrow> py_error + soundseq" where
  "seq_add self other =
     (case other of
        OSound s \<Rightarrow> Inl TypeError
      | OSeq q \<Rightarrow> SoundSeq_init (seq_sounds self @ seq_sounds q) 8000
      | OOther \<Rightarrow> Inl TypeError)"

section \<open>Runs of an object on the device\<close>

text \<open>
  What can happen to one \<open>Sound\<close> object and the device, from the moment the object has
  no player: calls of its methods, whether they return or raise, the end of any
  submission (a buffer played to its end, or a handle stopped by its owner), and
  submissions by other objects.  The third argument collects the handles the device has
  returned to this object.
\<close>

inductive sound_run :: "sound \<Rightarrow> device \<Rightarrow> nat set \<Rightarrow> bool" where
  run_new: "sound_player s = None \<Longrightarrow> sound_run s d {}"
| run_play:
    "sound_run s d H \<Longrightarrow> play s d = (s', d') \<Longrightarrow>
     sound_run s' d' (H \<union> set_option (sound_player s'))"
| run_stop: "sound_run s d H \<Longrightarrow> stop s d = (s', d') \<Longrightarrow> sound_run s' d' H"
| run_wait_done: "sound_run s d H \<Longrightarrow> wait_done s d = (s', d') \<Longrightarrow> sound_run s' d' H"
| run_change_duration:
    "sound_run s d H \<Longrightarrow> change_duration s seconds fs_arg d = Return (s', d') \<Longrightarrow>
     sound_run s' d' H"
| run_change_duration_raise:
    "sound_run s d H \<Longrightarrow> change_duration s seconds fs_arg d = Raise e (s', d') \<Longrightarrow>
     sound_run s' d' H"
| run_set_pitch: "sound_run s d H \<Longrightarrow> sound_run (set_pitch s pitch) d H"
| run_set_instrument: "sound_run s d H \<Longrightarrow> sound_run (set_instrument s instrument) d H"
| run_set_volume: "sound_run s d H \<Longrightarrow> sound_run (set_volume s vol) d H"
| run_set_instrument_strength:
    "sound_run s d H \<Longrightarrow> sound_run (set_instrument_strength s strength) d H"
| run_set_cutoff_factor: "sound_run s d H \<Longrightarrow> sound_run (set_cutoff_factor s factor) d H"
| run_handle_ends: "sound_run s d H \<Longrightarrow> sound_run s (handle_stop h d) H"
| run_other_submission:
    "sound_run s d H \<Longrightarrow> play_buffer audio rate d = (h, d') \<Longrightarrow> sound_run s d' H"

text \<open>The same for one \<open>SoundSeq\<close> object.\<close>

inductive seq_run :: "soundseq \<Rightarrow> device \<Rightarrow> nat set \<Rightarrow> bool" where
  seq_new: "seq_player q = None \<Longrightarrow> seq_run q d {}"
| seq_run_play:
    "seq_run q d H \<Longrightarrow> seq_play q d = (q', d') \<Longrightarrow>
     seq_run q' d' (H \<union> set_option (seq_player q'))"
| seq_run_stop: "seq_run q d H \<Longrightarrow> seq_stop q d = (q', d') \<Longrightarrow> seq_run q' d' H"
| seq_run_wait_done: "seq_run q d H \<Longrightarrow> seq_wait_done q d = (q', d') \<Longrightarrow> seq_run q' d' H"
| seq_run_append:
    "seq_run q d H \<Longrightarrow> seq_append q other d = Return (q', d') \<Longrightarrow> seq_run q' d' H"
| seq_run_append_raise:
    "seq_run q d H \<Longrightarrow> seq_append q other d = Raise e (q', d') \<Longrightarrow> seq_run q' d' H"
| seq_run_change_duration:
    "seq_run q d H \<Longrightarrow> seq_change_duration q d = Return (q', d') \<Longrightarrow> seq_run q' d' H"
| seq_run_change_duration_raise:
    "seq_run q d H \<Longrightarrow> seq_change_duration q d = Raise e (q', d') \<Longrightarrow> seq_run q' d' H"
| seq_run_handle_ends: "seq_run q d H \<Longrightarrow> seq_run q (handle_stop h d) H"
| seq_run_other_submission:
    "seq_run q d H \<Longrightarrow> play_buffer audio rate d = (h, d') \<Longrightarrow> seq_run q d' H"

text \<open>
  The handles of an object, its player \<open>p\<close> and the device agree: every handle was
  issued by the device, only the player can still sound, and the player is one of the
  object's handles.
\<close>

definition handles_ok :: "nat option \<Rightarrow> device \<Rightarrow> nat set \<Rightarrow> bool" where
  "handles_ok p d H \<longleftrightarrow>
     (\<forall>h \<in> H. h < next_id d) \<and> (\<forall>h \<in> H. h \<in> live d \<longrightarrow> p = Some h) \<and> set_option p \<subseteq> H"

section \<open>Example objects\<close>

text \<open>
  A device on which nothing sounds, and the objects the constructors return for a few
  small arguments (shown below): \<open>example_tone\<close> and \<open>example_soft\<close> are two samples of a
  sine at volume 0.2 and 0.25, \<open>example_click\<close> is one sample of a modulated tone at the
  given rate, \<open>example_seq\<close> a sequence at 11025 Hz with one such member.
\<close>

definition idle_device :: device where
  "idle_device = \<lparr>live = {}, next_id = 0\<rparr>"

definition example_tone :: sound where
  "example_tone =
     \<lparr>sound_pitch = Some (FNum (1 / 2)), sound_instrument = Some INone,
      sound_vol_factor = 1 / 5, sound_instrument_strength = KNum 1,
      sound_cutoff_factor = 1 / 100, sound_seconds = 1, sound_fs = 2, sound_size = 2,
      sound_audio = [0, 0, 153, 25], sound_player = None\<rparr>"

definition example_soft :: sound where
  "example_soft =
     \<lparr>sound_pitch = Some (FNum (1 / 2)), sound_instrument = Some INone,
      sound_vol_factor = 1 / 4, sound_instrument_strength = KNum 1,
      sound_cutoff_factor = 1 / 100, sound_seconds = 1, sound_fs = 2, sound_size = 2,
      sound_audio = [0, 0, 255, 31], sound_player = None\<rparr>"

definition example_click :: "real \<Rightarrow> sound" where
  "example_click rate =
     \<lparr>sound_pitch = Some (FNum 440), sound_instrument = Some (INum 1),
      sound_vol_factor = 1 / 5, sound_instrument_strength = KNum 1,
      sound_cutoff_factor = 1 / 100, sound_seconds = 1 / rate, sound_fs = rate, sound_size = 1,
      sound_audio = [0, 0], sound_player = None\<rparr>"

definition example_seq :: soundseq where
  "example_seq =
     \<lparr>seq_sounds = [example_click 11025], seq_audio = [0, 0], seq_fs = 11025, seq_size = 1,
      seq_seconds = 1 / 11025, seq_player = None\<rparr>"

section \<open>Properties\<close>

subsection \<open>Truncation, lengths and bounds in \<open>gen_custom_freq\<close>\<close>

lemma py_int_nonpos: "x < 1 \<Longrightarrow> py_int x \<le> 0"
  by (auto simp: py_int_def floor_le_iff ceiling_le_iff)

lemma py_int_pos_floor: "0 \<le> x \<Longrightarrow> py_int x = \<lfloor>x\<rfloor>"
  by (simp add: py_int_def)

lemma py_int_abs_le: "\<bar>real_of_int (py_int x)\<bar> \<le> \<bar>x\<bar>"
proof (cases "0 \<le> x")
  case True
  then show ?thesis by (simp add: py_int_def)
next
  case False
  then have "x \<le> real_of_int \<lceil>x\<rceil>" "real_of_int \<lceil>x\<rceil> \<le> 0"
    by (auto simp: ceiling_le_iff)
  with False show ?thesis by (simp add: py_int_def)
qed

lemma length_time_axis: "length (time_axis fs n) = nat n"
  by (simp add: time_axis_def)

lemma BASE_SOUND_length: "BASE_SOUND x freq = Inr note \<Longrightarrow> length note = length x"
  by (auto simp: BASE_SOUND_def split: pyfreq.splits if_splits)

lemma freq_modulator_length: "freq_modulator md k x freq = Inr note \<Longrightarrow> length note = length x"
  by (auto simp: freq_modulator_def Let_def split: pyfreq.splits if_splits option.splits)

lemma resolve_instrument_length:
  "builtin instrument \<Longrightarrow> resolve_instrument instrument k x freq = Inr note \<Longrightarrow> length note = length x"
  by (auto simp: resolve_instrument_def builtin_def BASE_SOUND_length freq_modulator_length
      split: instr_arg.splits option.splits)

lemma BASE_SOUND_empty: "BASE_SOUND [] freq = Inr []"
  by (simp add: BASE_SOUND_def split: pyfreq.splits)

lemma builtin_empty:
  "builtin instrument \<Longrightarrow>
     resolve_instrument instrument k [] freq = Inr [] \<or>
     resolve_instrument instrument k [] freq = Inl ValueError"
  by (auto simp: resolve_instrument_def builtin_def BASE_SOUND_empty freq_modulator_def
      split: instr_arg.splits option.splits)

lemma scale_audio_length: "scale_audio note vol = Inr audio \<Longrightarrow> length audio = length note"
  by (auto simp: scale_audio_def Let_def split: if_splits)

lemma py_setitem_length: "py_setitem xs i v = Inr ys \<Longrightarrow> length ys = length xs"
  by (auto simp: py_setitem_def split: if_splits)

lemma fade_loop_length: "fade_loop n cutoff is dyn = Inr dyn' \<Longrightarrow> length dyn' = length dyn"
  by (induction "is" arbitrary: dyn) (auto simp: Let_def py_setitem_length split: sum.splits)

lemma envelope_length: "envelope n len fs cf = Inr dyn \<Longrightarrow> length dyn = nat n"
  by (auto simp: envelope_def Let_def dest: fade_loop_length)

lemma to_bytes2_length: "to_bytes2 v = Inr b \<Longrightarrow> length b = 2"
  by (auto simp: to_bytes2_def split: if_splits)

lemma encode_length: "encode ps = Inr bs \<Longrightarrow> length bs = 2 * length ps"
  by (induction ps arbitrary: bs rule: encode.induct)
     (auto split: sum.splits dest: to_bytes2_length)

lemma gen_custom_freq_length:
  assumes "builtin instrument"
    and "gen_custom_freq frequency seconds vol fs instrument k cf = Inr bs"
  shows "length bs = 2 * nat (py_int (seconds * fs))"
  using assms
  by (auto simp: gen_custom_freq_def Let_def length_time_axis split: sum.splits
      dest!: resolve_instrument_length scale_audio_length envelope_length encode_length)

lemma gen_custom_freq_empty:
  assumes "builtin instrument" and "seconds * fs < 1"
  shows "gen_custom_freq frequency seconds vol fs instrument k cf = Inl ValueError"
proof -
  have n: "time_axis fs (py_int (seconds * fs)) = []"
    using py_int_nonpos [OF assms(2)] by (simp add: time_axis_def)
  from builtin_empty [OF assms(1), of k frequency] show ?thesis
    by (auto simp: gen_custom_freq_def Let_def n scale_audio_def)
qed

lemma fade_arg: "0 \<le> r \<Longrightarrow> r \<le> 1 \<Longrightarrow> 1 \<le> r * 7 + 1 \<and> r * 7 + 1 \<le> (8::real)"
  by simp

lemma ln_8: "ln (8::real) = 3 * ln 2"
proof -
  have "ln ((2::real) ^ 3) = real 3 * ln 2" by (rule ln_realpow)
  then show ?thesis by simp
qed

lemma fade_range:
  assumes "0 \<le> i" "i < cutoff"
  shows "0 \<le> fade i cutoff \<and> fade i cutoff \<le> 1"
proof -
  define r where "r = real_of_int i / real_of_int cutoff"
  have r: "0 \<le> r" "r \<le> 1" using assms by (auto simp: r_def divide_le_eq)
  from fade_arg [OF r] have a1: "1 \<le> r * 7 + 1" and a8: "r * 7 + 1 \<le> 8" by auto
  have l0: "0 \<le> ln (r * 7 + 1)" using a1 by (rule ln_ge_zero)
  have "ln (r * 7 + 1) \<le> ln 8" using a1 a8 by (subst ln_le_cancel_iff) auto
  then have l8: "ln (r * 7 + 1) \<le> 3 * ln 2" by (simp only: ln_8)
  have ln2: "0 < ln (2::real)" by simp
  have eq: "fade i cutoff = ln (r * 7 + 1) / (3 * ln 2)"
    by (simp add: fade_def r_def)
  show ?thesis
    unfolding eq using l0 l8 ln2 by (simp add: divide_le_eq)
qed

lemma unit_interval_update:
  "unit_interval xs \<Longrightarrow> 0 \<le> v \<Longrightarrow> v \<le> 1 \<Longrightarrow> unit_interval (xs[k := v])"
  unfolding unit_interval_def list_all_iff
  using set_update_subset_insert [of xs k v] by blast

lemma py_setitem_unit:
  "unit_interval xs \<Longrightarrow> 0 \<le> v \<Longrightarrow> v \<le> 1 \<Longrightarrow> py_setitem xs i v = Inr ys \<Longrightarrow> unit_interval ys"
  unfolding py_setitem_def
  by (simp split: if_splits) (auto intro: unit_interval_update)

lemma fade_loop_unit:
  assumes "unit_interval dyn" "\<forall>i \<in> set is. int i < cutoff" "fade_loop n cutoff is dyn = Inr dyn'"
  shows "unit_interval dyn'"
  using assms
proof (induction "is" arbitrary: dyn)
  case Nil
  then show ?case by simp
next
  case (Cons i rest)
  have f: "0 \<le> fade (int i) cutoff" "fade (int i) cutoff \<le> 1"
    using fade_range [of "int i" cutoff] Cons.prems(2) by auto
  from Cons.prems(3) obtain d1 d2 where
    d1: "py_setitem dyn (n - int i - 1) (fade (int i) cutoff) = Inr d1" and
    d2: "py_setitem d1 (int i) (fade (int i) cutoff) = Inr d2" and
    rest: "fade_loop n cutoff rest d2 = Inr dyn'"
    by (auto simp: Let_def split: sum.splits)
  have "unit_interval d2"
    using py_setitem_unit [OF py_setitem_unit [OF Cons.prems(1) f d1] f d2] .
  then show ?case
    using Cons.IH [OF _ _ rest] Cons.prems(2) by simp
qed

lemma envelope_unit:
  assumes e: "envelope n len fs cf = Inr dyn"
  shows "unit_interval dyn"
proof -
  define c where "c = min (int len) (py_int (fs * cf))"
  have u: "unit_interval (replicate (nat n) 1)"
    by (simp add: unit_interval_def list_all_iff)
  have b: "\<forall>i \<in> set [0..<nat c]. int i < c" by auto
  from e have "fade_loop n c [0..<nat c] (replicate (nat n) 1) = Inr dyn"
    by (simp add: envelope_def Let_def c_def)
  from fade_loop_unit [OF u b this] show ?thesis .
qed

lemma scale_audio_bound:
  assumes "0 \<le> vol" "vol \<le> 1" "scale_audio note vol = Inr audio"
  shows "list_all (\<lambda>a. \<bar>a\<bar> \<le> 32767) audio"
proof -
  let ?M = "Max (set (map abs note))"
  from assms(3) have ne: "note \<noteq> []" and M0: "?M \<noteq> 0"
    and audio: "audio = map (\<lambda>i. real_of_int (py_int (i * vol * (2 ^ 15 - 1))) / ?M) note"
    by (auto simp: scale_audio_def Let_def split: if_splits)
  have Mge: "\<bar>x\<bar> \<le> ?M" if "x \<in> set note" for x
    using that by (intro Max_ge) auto
  have Mpos: "0 < ?M"
  proof -
    from ne obtain x where "x \<in> set note" by (cases "note") auto
    from Mge [OF this] have "0 \<le> ?M" by linarith
    with M0 show ?thesis by simp
  qed
  have "\<bar>real_of_int (py_int (x * vol * (2 ^ 15 - 1))) / ?M\<bar> \<le> 32767" if x: "x \<in> set note" for x
  proof -
    have "\<bar>real_of_int (py_int (x * vol * (2 ^ 15 - 1)))\<bar> \<le> \<bar>x * vol * (2 ^ 15 - 1)\<bar>"
      by (rule py_int_abs_le)
    also have "\<dots> = \<bar>x\<bar> * vol * 32767" using assms(1) by (simp add: abs_mult)
    also have "\<dots> \<le> ?M * 1 * 32767"
      using Mge [OF x] assms(1,2) Mpos by (intro mult_mono) auto
    finally have "\<bar>real_of_int (py_int (x * vol * (2 ^ 15 - 1)))\<bar> \<le> ?M * 32767" by simp
    then have "\<bar>real_of_int (py_int (x * vol * (2 ^ 15 - 1)))\<bar> / ?M \<le> 32767"
      using Mpos by (simp add: pos_divide_le_eq)
    then show ?thesis using Mpos by simp
  qed
  then show ?thesis by (simp add: audio list_all_iff)
qed

lemma py_int_range:
  assumes "\<bar>x\<bar> \<le> 32767"
  shows "- 32768 \<le> py_int x \<and> py_int x \<le> 32767"
proof -
  have "\<bar>real_of_int (py_int x)\<bar> \<le> 32767"
    using py_int_abs_le [of x] assms by linarith
  then show ?thesis by linarith
qed

lemma product_bound:
  assumes "\<bar>a\<bar> \<le> 32767" "0 \<le> d" "d \<le> (1::real)"
  shows "\<bar>a * d\<bar> \<le> 32767"
proof -
  have "\<bar>a * d\<bar> = \<bar>a\<bar> * d" using assms(2) by (simp add: abs_mult)
  also have "\<dots> \<le> 32767 * 1" using assms by (intro mult_mono) auto
  finally show ?thesis by simp
qed

lemma encode_in_range:
  assumes "\<forall>(a, d) \<in> set ps. - 32768 \<le> py_int (a * d) \<and> py_int (a * d) \<le> 32767"
  shows "\<exists>bs. encode ps = Inr bs"
  using assms
  by (induction ps rule: encode.induct) (auto simp: to_bytes2_def)

lemma mod_div_256: "(v::int) mod 256 + 256 * (v div 256 mod 256) = v mod 65536"
proof -
  have "v mod (256 * 256) = 256 * (v div 256 mod 256) + v mod 256"
    by (rule zmod_zmult2_eq) simp
  then show ?thesis by simp
qed

lemma from_bytes2_to_bytes2:
  assumes "- 32768 \<le> v" "v \<le> 32767"
  shows "from_bytes2 (v mod 256) (v div 256 mod 256) = v"
proof (cases "0 \<le> v")
  case True
  then have "v mod 65536 = v" using assms by simp
  then show ?thesis using assms by (simp add: from_bytes2_def mod_div_256 Let_def)
next
  case False
  then have "(v + 65536) mod 65536 = v + 65536" using assms by (intro mod_pos_pos_trivial) auto
  then have "v mod 65536 = v + 65536" by simp
  then show ?thesis using False assms by (simp add: from_bytes2_def mod_div_256 Let_def)
qed

lemma encode_nth:
  assumes "encode ps = Inr bs" "i < length ps"
  shows "bs ! (2 * i) = py_int (fst (ps ! i) * snd (ps ! i)) mod 256
       \<and> bs ! (2 * i + 1) = py_int (fst (ps ! i) * snd (ps ! i)) div 256 mod 256
       \<and> - 32768 \<le> py_int (fst (ps ! i) * snd (ps ! i))
       \<and> py_int (fst (ps ! i) * snd (ps ! i)) \<le> 32767"
  using assms
proof (induction ps arbitrary: bs i rule: encode.induct)
  case 1
  then show ?case by simp
next
  case (2 a d rest)
  from "2.prems"(1) obtain b bs' where
    b: "to_bytes2 (py_int (a * d)) = Inr b" and
    r: "encode rest = Inr bs'" and bs: "bs = b @ bs'"
    by (auto split: sum.splits)
  from b have rng: "- 32768 \<le> py_int (a * d)" "py_int (a * d) \<le> 32767"
    and bv: "b = [py_int (a * d) mod 256, py_int (a * d) div 256 mod 256]"
    by (auto simp: to_bytes2_def split: if_splits)
  show ?case
  proof (cases i)
    case 0
    then show ?thesis using rng by (simp add: bs bv)
  next
    case (Suc j)
    with "2.prems"(2) have j: "j < length rest" by simp
    from "2.IH" [OF b r j] show ?thesis
      by (simp add: Suc bs bv)
  qed
qed

lemma fade_loop_ok:
  assumes "int (length dyn) = n" "\<forall>i \<in> set is. int i < n"
  shows "\<exists>dyn'. fade_loop n cutoff is dyn = Inr dyn'"
  using assms
proof (induction "is" arbitrary: dyn)
  case Nil
  then show ?case by simp
next
  case (Cons i rest)
  let ?x = "fade (int i) cutoff"
  have i: "int i < n" using Cons.prems(2) by simp
  have d1: "py_setitem dyn (n - int i - 1) ?x = Inr (dyn[nat (n - int i - 1) := ?x])"
    using i Cons.prems(1) by (simp add: py_setitem_def)
  have d2: "py_setitem (dyn[nat (n - int i - 1) := ?x]) (int i) ?x
      = Inr (dyn[nat (n - int i - 1) := ?x, i := ?x])"
    using i Cons.prems(1) by (simp add: py_setitem_def)
  have "\<exists>dyn'. fade_loop n cutoff rest (dyn[nat (n - int i - 1) := ?x, i := ?x]) = Inr dyn'"
    using Cons.prems by (intro Cons.IH) auto
  then show ?case by (simp add: Let_def d1 d2)
qed

lemma envelope_ok:
  assumes "int len \<le> n"
  shows "\<exists>dyn. envelope n len fs cf = Inr dyn"
proof -
  define c where "c = min (int len) (py_int (fs * cf))"
  have n: "0 \<le> n" using assms by linarith
  have l: "int (length (replicate (nat n) (1::real))) = n" using n by simp
  have b: "\<forall>i \<in> set [0..<nat c]. int i < n" using assms by (auto simp: c_def)
  from fade_loop_ok [OF l b, of c] show ?thesis
    by (simp add: envelope_def Let_def c_def)
qed

lemma py_setitem_error: "py_setitem xs i v = Inl e \<Longrightarrow> e = IndexError"
  by (simp add: py_setitem_def split: if_splits)

lemma fade_loop_error: "fade_loop n cutoff is dyn = Inl e \<Longrightarrow> e = IndexError"
  by (induction "is" arbitrary: dyn)
     (auto simp: Let_def split: sum.splits dest: py_setitem_error)

lemma envelope_error: "envelope n len fs cf = Inl e \<Longrightarrow> e = IndexError"
  by (auto simp: envelope_def Let_def dest: fade_loop_error)

lemma time_axis_Cons:
  assumes "1 \<le> n"
  shows "time_axis fs n = 0 # map (\<lambda>i. real i / fs) [1..<nat n]"
proof -
  have "[0..<nat n] = 0 # [1..<nat n]" using assms by (simp add: upt_rec)
  then show ?thesis by (simp add: time_axis_def)
qed

lemma Max_insert_one: "finite S \<Longrightarrow> Max (insert (1::real) S) \<noteq> 0"
proof -
  assume "finite S"
  then have "1 \<le> Max (insert (1::real) S)" by (intro Max_ge) auto
  then show ?thesis by linarith
qed

lemma freq_modulator_ok:
  assumes "strength_of k = Some st"
  shows "\<exists>note. freq_modulator md k (0 # xs) (FNum f) = Inr note"
  by (simp add: freq_modulator_def Let_def assms Max_insert_one)

lemma builtin_ok:
  assumes "builtin instrument" "strength_of k = Some st" "1 \<le> n"
  shows "\<exists>note. resolve_instrument instrument k (time_axis fs n) (FNum f) = Inr note"
proof (cases instrument)
  case INone
  then show ?thesis by (simp add: resolve_instrument_def BASE_SOUND_def)
next
  case (IStr s)
  then show ?thesis
    using freq_modulator_ok [OF assms(2)]
    by (simp add: resolve_instrument_def BASE_SOUND_def time_axis_Cons [OF assms(3)]
        split: option.splits)
next
  case (INum v)
  then show ?thesis
    using freq_modulator_ok [OF assms(2)]
    by (simp add: resolve_instrument_def time_axis_Cons [OF assms(3)])
next
  case (IFun g)
  with assms(1) show ?thesis by (simp add: builtin_def)
qed

text \<open>The definitions a concrete call of \<open>gen_custom_freq\<close> is evaluated with.\<close>

lemmas gen_eval =
  gen_custom_freq_def resolve_instrument_def BASE_SOUND_def freq_modulator_def strength_of_def
  time_axis_def py_int_def upt_rec scale_audio_def envelope_def fade_def py_setitem_def
  to_bytes2_def numeral_2_eq_2

subsection \<open>Calls of \<open>gen_custom_freq\<close> with non-positive parameters\<close>

text \<open>
  Claim C1, as amended.  \<open>gen_custom_freq\<close> validates none of its parameters.  With
  the instrument \<open>None\<close>, a note name or a number, every call whose duration and sample
  rate give no sample (\<open>seconds * fs < 1\<close>, so that \<open>int(seconds * fs) \<le> 0\<close>: in
  particular a non-positive duration with a non-negative rate, and a non-positive rate
  with a non-negative duration) fails with \<open>ValueError\<close>, which \<open>max\<close> raises on the
  empty list of samples.  The sign of the frequency is not looked at: the call of the
  counterexample, with frequency \<open>-0.5\<close>, returns a buffer.
\<close>

theorem gen_custom_freq_too_short:
  assumes "builtin instrument" and "seconds * fs < 1"
  shows "gen_custom_freq frequency seconds vol_factor fs instrument instrument_strength
           cutoff_factor = Inl ValueError"
  using assms by (rule gen_custom_freq_empty)

theorem gen_custom_freq_too_short_witness:
  "gen_custom_freq (FNum 440) 0 (1 / 5) 8000 INone (KNum 1) (1 / 100) = Inl ValueError"
  using gen_custom_freq_too_short [of INone 0 8000 "FNum 440" "1 / 5" "KNum 1" "1 / 100"]
  by (simp add: builtin_def)

theorem gen_custom_freq_negative_frequency:
  "(- 1 / 2 :: real) \<le> 0 \<and>
   gen_custom_freq (FNum (- 1 / 2)) 1 (1 / 5) 2 INone (KNum 1) (1 / 100) = Inr [0, 0, 103, 230]"
  by (simp add: gen_eval)

subsection \<open>Length and scaling of the raw samples\<close>

text \<open>
  Claim C2, as amended.  For every valid input (frequency, duration and sample rate
  positive) that yields at least one sample (\<open>seconds * fs \<ge> 1\<close>), with the instrument
  \<open>None\<close>, a note name or a number and a bound instrument strength, the instrument returns
  exactly \<open>floor(seconds * fs)\<close> raw samples.  When their largest absolute value is not
  zero, every sample, scaled by the volume and 32767 and truncated, is divided by it.
  There is no guard for a peak of zero: then the scaling, and with it the call of
  \<open>gen_custom_freq\<close>, raises \<open>ZeroDivisionError\<close>.
\<close>

theorem raw_samples_scaled:
  assumes valid: "0 < f" "0 < seconds" "0 < fs"
    and one: "1 \<le> seconds * fs"
    and bi: "builtin instrument" and st: "strength_of instrument_strength = Some st"
  shows "\<exists>note. resolve_instrument instrument instrument_strength
                  (time_axis fs (py_int (seconds * fs))) (FNum f) = Inr note
          \<and> int (length note) = \<lfloor>seconds * fs\<rfloor>
          \<and> scale_audio note vol_factor =
                (if Max (set (map abs note)) = 0 then Inl ZeroDivisionError
                 else Inr (map (\<lambda>x. real_of_int (py_int (x * vol_factor * (2 ^ 15 - 1)))
                                      / Max (set (map abs note))) note))
          \<and> gen_custom_freq (FNum f) seconds vol_factor fs instrument instrument_strength
                cutoff_factor =
                (if Max (set (map abs note)) = 0 then Inl ZeroDivisionError
                 else case envelope \<lfloor>seconds * fs\<rfloor> (length note) fs cutoff_factor of
                        Inl e \<Rightarrow> Inl e
                      | Inr dynamics \<Rightarrow>
                          encode (zip (map (\<lambda>x. real_of_int (py_int (x * vol_factor * (2 ^ 15 - 1)))
                                      / Max (set (map abs note))) note) dynamics))"
proof -
  have n: "py_int (seconds * fs) = \<lfloor>seconds * fs\<rfloor>"
    using one by (simp add: py_int_def)
  have n1: "1 \<le> \<lfloor>seconds * fs\<rfloor>" using one by (simp add: le_floor_iff)
  from builtin_ok [OF bi st, of "\<lfloor>seconds * fs\<rfloor>" fs f] n1 obtain smp where
    nt: "resolve_instrument instrument instrument_strength
           (time_axis fs \<lfloor>seconds * fs\<rfloor>) (FNum f) = Inr smp"
    by auto
  have len: "length smp = nat \<lfloor>seconds * fs\<rfloor>"
    using resolve_instrument_length [OF bi nt] by (simp add: length_time_axis)
  then have ne: "smp \<noteq> []" using n1 by auto
  have sc: "scale_audio smp vol_factor =
        (if Max (set (map abs smp)) = 0 then Inl ZeroDivisionError
         else Inr (map (\<lambda>x. real_of_int (py_int (x * vol_factor * (2 ^ 15 - 1)))
                              / Max (set (map abs smp))) smp))"
    using ne by (simp add: scale_audio_def Let_def)
  have "gen_custom_freq (FNum f) seconds vol_factor fs instrument instrument_strength
          cutoff_factor =
        (if Max (set (map abs smp)) = 0 then Inl ZeroDivisionError
         else case envelope \<lfloor>seconds * fs\<rfloor> (length smp) fs cutoff_factor of
                        Inl e \<Rightarrow> Inl e
                      | Inr dynamics \<Rightarrow>
                          encode (zip (map (\<lambda>x. real_of_int (py_int (x * vol_factor * (2 ^ 15 - 1)))
                                      / Max (set (map abs smp))) smp) dynamics))"
    by (cases "Max (set (map abs smp)) = 0") (simp_all add: gen_custom_freq_def Let_def n nt sc cong: sum.case_cong)
  with nt len sc n n1 show ?thesis by auto
qed

theorem raw_samples_scaled_witness:
  "\<exists>smp. resolve_instrument INone (KNum 1) (time_axis 2 (py_int (1 * 2))) (FNum (1 / 2))
            = Inr smp \<and> int (length smp) = 2"
proof -
  have "builtin INone" "strength_of (KNum 1) = Some 1"
    by (simp_all add: builtin_def strength_of_def)
  from raw_samples_scaled [OF _ _ _ _ this, of "1 / 2" 1 2 "1 / 5" "1 / 100"]
  obtain smp where
    "resolve_instrument INone (KNum 1) (time_axis 2 (py_int (1 * 2))) (FNum (1 / 2)) = Inr smp"
    "int (length smp) = \<lfloor>1 * 2 :: real\<rfloor>"
    by auto
  then show ?thesis by auto
qed

theorem zero_peak_raises:
  "(0::real) < 440 \<and> (0::real) < 1
   \<and> gen_custom_freq (FNum 440) 1 (1 / 5) 1 INone (KNum 1) (1 / 100) = Inl ZeroDivisionError"
  by (simp add: gen_eval)

subsection \<open>The emitted 16-bit values\<close>

text \<open>A call with two samples, the second at the peak, at volume 0.25.\<close>

lemma ex_quarter:
  "gen_custom_freq (FNum (1 / 2)) 1 (1 / 4) 2 INone (KNum 1) (1 / 100) = Inr [0, 0, 255, 31]"
  by (simp add: gen_eval)

lemma ex_quarter_samples:
  "resolve_instrument INone (KNum 1) (time_axis 2 (py_int (1 * 2))) (FNum (1 / 2)) = Inr [0, 1]"
  by (simp add: gen_eval)

lemma ex_envelope: "envelope (py_int (1 * 2)) (length [0, 1 :: real]) 2 (1 / 100) = Inr [1, 1]"
  by (simp add: gen_eval)

text \<open>
  Claim C6, as amended.  For every index \<open>i\<close> of a buffer that \<open>gen_custom_freq\<close> returns,
  the emitted value is \<open>int(int(sample[i] * volume * 32767) / maximum * envelope[i])\<close>,
  where \<open>int\<close> truncates toward zero: nothing is rounded, and the first truncation comes
  before the division by the peak.  Nothing is clamped either: the value lies in
  \<open>[-32768, 32767]\<close> because \<open>to_bytes\<close> raises \<open>OverflowError\<close> otherwise, and then no
  buffer is returned.  The value is encoded as two bytes, low byte first, in two's
  complement; the buffer holds two bytes for every pair of a sample and an envelope
  value.
\<close>

theorem emitted_sample:
  assumes gen: "gen_custom_freq frequency seconds vol_factor fs instrument instrument_strength
                  cutoff_factor = Inr bs"
    and nt: "resolve_instrument instrument instrument_strength
               (time_axis fs (py_int (seconds * fs))) frequency = Inr smp"
    and env: "envelope (py_int (seconds * fs)) (length smp) fs cutoff_factor = Inr dynamics"
    and i: "i < length smp" "i < length dynamics"
  shows "(let v = py_int (real_of_int (py_int (smp ! i * vol_factor * (2 ^ 15 - 1)))
                           / Max (set (map abs smp)) * dynamics ! i)
          in - 32768 \<le> v \<and> v \<le> 32767
             \<and> bs ! (2 * i) = v mod 256 \<and> bs ! (2 * i + 1) = v div 256 mod 256
             \<and> from_bytes2 (bs ! (2 * i)) (bs ! (2 * i + 1)) = v)
         \<and> length bs = 2 * min (length smp) (length dynamics)"
proof -
  from gen nt obtain audio where audio: "scale_audio smp vol_factor = Inr audio"
    by (auto simp: gen_custom_freq_def Let_def split: sum.splits)
  then have a: "audio = map (\<lambda>x. real_of_int (py_int (x * vol_factor * (2 ^ 15 - 1)))
                                 / Max (set (map abs smp))) smp"
    by (auto simp: scale_audio_def Let_def split: if_splits)
  have la: "length audio = length smp" using scale_audio_length [OF audio] .
  from gen have enc: "encode (zip audio dynamics) = Inr bs"
    by (simp add: gen_custom_freq_def Let_def nt audio la env)
  have iz: "i < length (zip audio dynamics)" using i la by simp
  define v where "v = py_int (real_of_int (py_int (smp ! i * vol_factor * (2 ^ 15 - 1)))
                           / Max (set (map abs smp)) * dynamics ! i)"
  have vz: "py_int (fst (zip audio dynamics ! i) * snd (zip audio dynamics ! i)) = v"
    using i la by (simp add: v_def a)
  from encode_nth [OF enc iz] have
    r: "- 32768 \<le> v" "v \<le> 32767" and b: "bs ! (2 * i) = v mod 256"
      "bs ! (2 * i + 1) = v div 256 mod 256"
    unfolding vz by auto
  have "from_bytes2 (bs ! (2 * i)) (bs ! (2 * i + 1)) = v"
    unfolding b using r by (rule from_bytes2_to_bytes2)
  moreover have "length bs = 2 * min (length smp) (length dynamics)"
    using encode_length [OF enc] la by simp
  ultimately show ?thesis
    using r b unfolding Let_def v_def [symmetric] by simp
qed

theorem emitted_sample_witness:
  "from_bytes2 ([0, 0, 255, 31] ! 2) ([0, 0, 255, 31] ! 3) = 8191"
  using emitted_sample [OF ex_quarter ex_quarter_samples ex_envelope, of 1]
  by (simp add: Let_def py_int_def)

theorem emitted_sample_truncated:
  "gen_custom_freq (FNum (1 / 2)) 1 (1 / 4) 2 INone (KNum 1) (1 / 100) = Inr [0, 0, 255, 31]
   \<and> resolve_instrument INone (KNum 1) (time_axis 2 (py_int (1 * 2))) (FNum (1 / 2)) = Inr [0, 1]
   \<and> envelope (py_int (1 * 2)) 2 2 (1 / 100) = Inr [1, 1]
   \<and> from_bytes2 ([0, 0, 255, 31] ! 2) ([0, 0, 255, 31] ! 3) = 8191
   \<and> spec_sample ([0, 1] ! 1 / Max (set (map abs [0, 1]))) (1 / 4) ([1, 1] ! 1) = 8192"
  by (simp add: gen_eval from_bytes2_def spec_sample_def round_def)

subsection \<open>No overflow in the encoding\<close>

text \<open>
  Claim C9.  When the volume factor lies in \<open>[0, 1]\<close> and the instrument has returned
  samples whose largest absolute value is positive, the scaling step succeeds, every
  value \<open>int(a * d)\<close> of a scaled sample \<open>a\<close> and an envelope value \<open>d\<close> lies in
  \<open>[-32768, 32767]\<close>, and \<open>gen_custom_freq\<close> does not raise \<open>OverflowError\<close>: once the
  envelope is built, the call returns its buffer.
\<close>

theorem gen_custom_freq_no_overflow:
  assumes vol: "0 \<le> vol_factor" "vol_factor \<le> 1"
    and nt: "resolve_instrument instrument instrument_strength
               (time_axis fs (py_int (seconds * fs))) frequency = Inr note"
    and ne: "note \<noteq> []" and mx: "0 < Max (set (map abs note))"
  shows "gen_custom_freq frequency seconds vol_factor fs instrument instrument_strength
           cutoff_factor \<noteq> Inl OverflowError
       \<and> (\<exists>audio. scale_audio note vol_factor = Inr audio
            \<and> (\<forall>dynamics.
                  envelope (py_int (seconds * fs)) (length audio) fs cutoff_factor = Inr dynamics
                  \<longrightarrow> (\<forall>(a, d) \<in> set (zip audio dynamics).
                         - 32768 \<le> py_int (a * d) \<and> py_int (a * d) \<le> 32767)
                      \<and> (\<exists>bs. gen_custom_freq frequency seconds vol_factor fs instrument
                                 instrument_strength cutoff_factor = Inr bs)))"
proof -
  obtain audio where audio: "scale_audio note vol_factor = Inr audio"
    using ne mx by (auto simp: scale_audio_def Let_def)
  have bound: "list_all (\<lambda>a. \<bar>a\<bar> \<le> 32767) audio"
    using scale_audio_bound [OF vol audio] .
  have rng: "\<forall>(a, d) \<in> set (zip audio dynamics).
               - 32768 \<le> py_int (a * d) \<and> py_int (a * d) \<le> 32767"
    if env: "envelope (py_int (seconds * fs)) (length audio) fs cutoff_factor = Inr dynamics"
    for dynamics
  proof -
    have u: "unit_interval dynamics" using envelope_unit [OF env] .
    show ?thesis
    proof (clarify)
      fix a d assume "(a, d) \<in> set (zip audio dynamics)"
      then have "a \<in> set audio" "d \<in> set dynamics" by (auto dest: set_zip_leftD set_zip_rightD)
      then have "\<bar>a\<bar> \<le> 32767" "0 \<le> d" "d \<le> 1"
        using bound u by (auto simp: list_all_iff unit_interval_def)
      then have "\<bar>a * d\<bar> \<le> 32767" by (rule product_bound)
      then show "- 32768 \<le> py_int (a * d) \<and> py_int (a * d) \<le> 32767" by (rule py_int_range)
    qed
  qed
  have gen: "gen_custom_freq frequency seconds vol_factor fs instrument instrument_strength
               cutoff_factor =
             (case envelope (py_int (seconds * fs)) (length audio) fs cutoff_factor of
                Inl e \<Rightarrow> Inl e | Inr dynamics \<Rightarrow> encode (zip audio dynamics))"
    by (simp add: gen_custom_freq_def Let_def nt audio)
  have ok: "\<exists>bs. gen_custom_freq frequency seconds vol_factor fs instrument instrument_strength
                 cutoff_factor = Inr bs"
    if env: "envelope (py_int (seconds * fs)) (length audio) fs cutoff_factor = Inr dynamics"
    for dynamics
    using encode_in_range [OF rng [OF env]] by (simp add: gen env)
  have no: "gen_custom_freq frequency seconds vol_factor fs instrument instrument_strength
              cutoff_factor \<noteq> Inl OverflowError"
  proof (cases "envelope (py_int (seconds * fs)) (length audio) fs cutoff_factor")
    case (Inl e)
    then have "e = IndexError" by (rule envelope_error)
    with Inl show ?thesis by (simp add: gen)
  next
    case (Inr dynamics)
    from ok [OF Inr] show ?thesis by auto
  qed
  show ?thesis using no audio rng ok by blast
qed


theorem gen_custom_freq_no_overflow_witness:
  "gen_custom_freq (FNum (1 / 2)) 1 (1 / 5) 2 INone (KNum 1) (1 / 100) \<noteq> Inl OverflowError"
proof -
  have nt: "resolve_instrument INone (KNum 1) (time_axis 2 (py_int (1 * 2))) (FNum (1 / 2))
              = Inr [0, 1]"
    by (simp add: gen_eval)
  have "0 < Max (set (map abs [0, 1 :: real]))" by simp
  from gen_custom_freq_no_overflow [OF _ _ nt _ this, of "1 / 5" "1 / 100"]
  show ?thesis by simp
qed

subsection \<open>The note table\<close>

text \<open>
  Claim C8.  The table maps \<open>A4\<close> to 440 and both \<open>Bb4\<close> and \<open>A#4\<close> to 466.16.  In
  every octave from 0 to 8, the sharp and the flat spelling of each of the five
  accidentals are two different keys of the table with the same frequency.  No key
  occurs twice in the dictionary literal, so every name has exactly one frequency.
\<close>

theorem NOTE_enharmonic:
  "NOTE ''A4'' = Some 440 \<and> NOTE ''Bb4'' = Some 466.16 \<and> NOTE ''A#4'' = Some 466.16
   \<and> (\<forall>(sharp, flat) \<in> set enharmonic_pairs. \<forall>oct \<in> set octaves.
         NOTE (sharp @ oct) = NOTE (flat @ oct) \<and> NOTE (sharp @ oct) \<noteq> None
         \<and> sharp @ oct \<noteq> flat @ oct)
   \<and> distinct (map fst NOTE_items)"
  by code_simp

theorem NOTE_enharmonic_witness:
  "NOTE ''C#4'' = NOTE ''Db4'' \<and> NOTE ''C#4'' \<noteq> None \<and> ''C#4'' \<noteq> ''Db4''"
proof -
  have pair: "(''C#'', ''Db'') \<in> set enharmonic_pairs"
    by (simp add: enharmonic_pairs_def)
  have oct: "''4'' \<in> set octaves"
    by (simp add: octaves_def)
  note pairs = NOTE_enharmonic [THEN conjunct2, THEN conjunct2, THEN conjunct2, THEN conjunct1]
  have "\<forall>oct \<in> set octaves.
       NOTE (''C#'' @ oct) = NOTE (''Db'' @ oct) \<and> NOTE (''C#'' @ oct) \<noteq> None
       \<and> ''C#'' @ oct \<noteq> ''Db'' @ oct"
    using bspec [OF pairs pair] by (simp only: prod.case)
  from bspec [OF this oct] show ?thesis
    unfolding append.simps .
qed

subsection \<open>The example objects are what the constructors return\<close>

lemmas sound_eval =
  Sound_init_def set_pitch_def set_instrument_def set_volume_def set_instrument_strength_def
  set_cutoff_factor_def change_duration_def update_audio_def is_playing_def stop_def

lemma gen_tone:
  "gen_custom_freq (FNum (1 / 2)) 1 (1 / 5) 2 INone (KNum 1) (1 / 100) = Inr [0, 0, 153, 25]"
  by (simp add: gen_eval)

lemma gen_click_8000:
  "gen_custom_freq (FNum 440) (1 / 8000) (1 / 5) 8000 (INum 1) (KNum 1) (1 / 100) = Inr [0, 0]"
  by (simp add: gen_eval)

lemma gen_click_11025:
  "gen_custom_freq (FNum 440) (1 / 11025) (1 / 5) 11025 (INum 1) (KNum 1) (1 / 100) = Inr [0, 0]"
  by (simp add: gen_eval)

lemma init_tone:
  "Sound_init (PNum (1 / 2)) 1 (1 / 5) 2 None INone (KNum 1) (1 / 100) idle_device
     = Inr (example_tone, idle_device)"
  by (simp add: sound_eval gen_tone example_tone_def py_int_def numeral_eq_Suc)

lemma init_soft:
  "Sound_init (PNum (1 / 2)) 1 (1 / 4) 2 None INone (KNum 1) (1 / 100) idle_device
     = Inr (example_soft, idle_device)"
  by (simp add: sound_eval ex_quarter example_soft_def py_int_def numeral_eq_Suc)

lemma init_click_8000:
  "Sound_init (PStr ''A4'') (1 / 8000) (1 / 5) 8000 None (INum 1) (KNum 1) (1 / 100) idle_device
     = Inr (example_click 8000, idle_device)"
proof -
  have "NOTE ''A4'' = Some 440" by code_simp
  then show ?thesis
    by (simp add: sound_eval gen_click_8000 example_click_def py_int_def numeral_eq_Suc)
qed

lemma init_click_11025:
  "Sound_init (PStr ''A4'') (1 / 11025) (1 / 5) 11025 None (INum 1) (KNum 1) (1 / 100) idle_device
     = Inr (example_click 11025, idle_device)"
proof -
  have "NOTE ''A4'' = Some 440" by code_simp
  then show ?thesis
    by (simp add: sound_eval gen_click_11025 example_click_def py_int_def numeral_eq_Suc)
qed

lemmas seq_eval =
  SoundSeq_init_def seq_rebuild_def seq_update_audio_def sound_add_def seq_add_def
  seq_append_def seq_change_duration_def seq_is_playing_def seq_stop_def

lemma init_seq: "SoundSeq_init [example_click 11025] 11025 = Inr example_seq"
  by (simp add: seq_eval example_click_def example_seq_def numeral_eq_Suc)

subsection \<open>Regeneration of the buffer\<close>

lemma copy_bytes_fits:
  "i + length new \<le> length buf \<Longrightarrow>
     copy_bytes i new buf = (None, take i buf @ new @ drop (i + length new) buf)"
proof (induction new arbitrary: i buf)
  case Nil
  then show ?case by simp
next
  case (Cons a rest)
  then have i: "i < length buf" by simp
  have len: "Suc i + length rest \<le> length (buf[i := a])" using Cons.prems by simp
  have t: "take (Suc i) (buf[i := a]) = take i buf @ [a]"
    using i by (simp add: take_Suc_conv_app_nth)
  have d: "drop (Suc i + length rest) (buf[i := a]) = drop (Suc i + length rest) buf"
    by simp
  show ?case
    using i by (simp add: Cons.IH [OF len] t d)
qed

lemma copy_bytes_whole:
  "length new = length buf \<Longrightarrow> copy_bytes 0 new buf = (None, new)"
  using copy_bytes_fits [of 0 new buf] by simp

lemma builtin_iff: "builtin instrument \<longleftrightarrow> (\<forall>f. instrument \<noteq> IFun f)"
  by (cases instrument) (simp_all add: builtin_def)

lemma update_audio_Return:
  assumes "update_audio self = Return s'"
    and "\<forall>f. sound_instrument self \<noteq> Some (IFun f)"
    and "length (sound_audio self) = 2 * nat (py_int (sound_seconds self * sound_fs self))"
  shows "\<exists>frequency instrument new_audio.
           sound_pitch self = Some frequency \<and> sound_instrument self = Some instrument
           \<and> gen_custom_freq frequency (sound_seconds self) (sound_vol_factor self)
                 (sound_fs self) instrument (sound_instrument_strength self) (1 / 100)
               = Inr new_audio
           \<and> s' = self\<lparr>sound_audio := new_audio\<rparr>"
proof -
  from assms(1) obtain frequency instrument new_audio where
    p: "sound_pitch self = Some frequency" and
    i: "sound_instrument self = Some instrument" and
    g: "gen_custom_freq frequency (sound_seconds self) (sound_vol_factor self)
          (sound_fs self) instrument (sound_instrument_strength self) (1 / 100) = Inr new_audio"
    by (auto simp: update_audio_def split: option.splits sum.splits)
  have "builtin instrument" using assms(2) i by (simp add: builtin_iff)
  from gen_custom_freq_length [OF this g] assms(3)
  have "copy_bytes 0 new_audio (sound_audio self) = (None, new_audio)"
    by (intro copy_bytes_whole) simp
  with assms(1) p i g have "s' = self\<lparr>sound_audio := new_audio\<rparr>"
    by (simp add: update_audio_def)
  with p i g show ?thesis by blast
qed

lemma set_instrument_no_function:
  assumes "\<forall>f. sound_instrument self \<noteq> Some (IFun f)"
  shows "\<forall>f. sound_instrument (set_instrument self instrument) \<noteq> Some (IFun f)"
  using assms by (simp add: set_instrument_def split: instr_arg.splits option.splits)

lemma change_duration_tone:
  "change_duration example_tone 1 None idle_device = Return (example_tone, idle_device)"
  by (simp add: sound_eval gen_tone example_tone_def py_int_def numeral_eq_Suc)

text \<open>
  A \<open>Sound\<close> that its constructor returns holds no function as its instrument, and no
  setter stores one.
\<close>

lemma update_audio_instrument:
  "update_audio x = Return y \<Longrightarrow> sound_instrument y = sound_instrument x"
  by (auto simp: update_audio_def split: option.splits sum.splits prod.splits)

lemma change_duration_instrument:
  assumes "change_duration s seconds fs_arg d = Return (s', d')"
  shows "sound_instrument s' = sound_instrument s"
proof -
  obtain s1 d1 where st: "(if is_playing s d then stop s d else (s, d)) = (s1, d1)"
    by (cases "if is_playing s d then stop s d else (s, d)") auto
  then have s1: "sound_instrument s1 = sound_instrument s"
    by (auto simp: stop_def split: if_splits option.splits)
  from assms show ?thesis
    unfolding change_duration_def st Let_def prod.case
    by (auto simp: s1 split: if_splits outcome.splits dest!: update_audio_instrument)
qed

lemma play_instrument: "play s d = (s', d') \<Longrightarrow> sound_instrument s' = sound_instrument s"
  by (auto simp: play_def stop_def Let_def split: if_splits option.splits prod.splits)

lemma wait_done_instrument:
  "wait_done s d = (s', d') \<Longrightarrow> sound_instrument s' = sound_instrument s"
  by (auto simp: wait_done_def split: option.splits)

lemma Sound_init_no_function:
  assumes "Sound_init pitch seconds vol_factor fs bg_play instrument instrument_strength
             cutoff_factor d = Inr (s, d')"
  shows "\<forall>f. sound_instrument s \<noteq> Some (IFun f)"
proof -
  define s0 where "s0 = \<lparr>sound_pitch = None, sound_instrument = None,
      sound_vol_factor = vol_factor, sound_instrument_strength = instrument_strength,
      sound_cutoff_factor = cutoff_factor, sound_seconds = seconds, sound_fs = fs,
      sound_size = 0, sound_audio = [], sound_player = None\<rparr>"
  define s6 where "s6 = (set_cutoff_factor (set_instrument_strength (set_volume
      (set_instrument (set_pitch s0 pitch) instrument) vol_factor) instrument_strength)
      cutoff_factor)\<lparr>sound_seconds := seconds, sound_fs := fs\<rparr>"
  have "\<forall>f. sound_instrument (set_pitch s0 pitch) \<noteq> Some (IFun f)"
    by (simp add: s0_def set_pitch_def split: pitch_arg.splits option.splits)
  from set_instrument_no_function [OF this]
  have nf: "\<forall>f. sound_instrument s6 \<noteq> Some (IFun f)"
    by (simp add: s6_def set_cutoff_factor_def set_instrument_strength_def set_volume_def)
  from assms obtain s7 d1 where
    cd: "change_duration s6 seconds (Some fs) d = Return (s7, d1)" and
    res: "(case bg_play of
             None \<Rightarrow> Inr (s7, d1)
           | Some True \<Rightarrow> Inr (play s7 d1)
           | Some False \<Rightarrow> (let (s8, d2) = play s7 d1 in Inr (wait_done s8 d2)))
          = (Inr (s, d') :: py_error + sound \<times> device)"
    unfolding Sound_init_def Let_def s6_def s0_def by (auto split: outcome.splits)
  have i7: "sound_instrument s7 = sound_instrument s6"
    using cd by (rule change_duration_instrument)
  obtain s8 d2 where pl: "play s7 d1 = (s8, d2)" by (cases "play s7 d1") auto
  have i8: "sound_instrument s8 = sound_instrument s7" using pl by (rule play_instrument)
  have "sound_instrument s = sound_instrument s6"
  proof (cases bg_play)
    case None
    with res i7 show ?thesis by auto
  next
    case (Some b)
    show ?thesis
    proof (cases b)
      case True
      with Some res pl i7 i8 show ?thesis by auto
    next
      case False
      with Some res pl have "wait_done s8 d2 = (s, d')" by simp
      from wait_done_instrument [OF this] i7 i8 show ?thesis by simp
    qed
  qed
  with nf show ?thesis by simp
qed

text \<open>
  Claim C3, as amended.  Of the six mutators only \<open>change_duration\<close> regenerates the
  buffer: \<open>set_pitch\<close>, \<open>set_volume\<close>, \<open>set_instrument\<close>, \<open>set_instrument_strength\<close> and
  \<open>set_cutoff_factor\<close> store their argument, or nothing, and leave the buffer as it
  was.  When \<open>change_duration\<close> returns, on a \<open>Sound\<close> whose instrument is not a function
  (no setter stores one) and whose cutoff factor is 0.01, the buffer is what
  \<open>gen_custom_freq\<close> returns for the current parameter values.
\<close>

theorem change_duration_regenerates:
  assumes ret: "change_duration self seconds fs_arg d = Return (s', d')"
    and nofun: "\<forall>f. sound_instrument self \<noteq> Some (IFun f)"
    and cf: "sound_cutoff_factor self = 1 / 100"
  shows "(\<exists>frequency instrument.
            sound_pitch s' = Some frequency \<and> sound_instrument s' = Some instrument
            \<and> gen_custom_freq frequency (sound_seconds s') (sound_vol_factor s') (sound_fs s')
                  instrument (sound_instrument_strength s') (sound_cutoff_factor s')
                = Inr (sound_audio s'))
       \<and> sound_audio (set_pitch self pitch) = sound_audio self
       \<and> sound_audio (set_volume self vol) = sound_audio self
       \<and> sound_audio (set_instrument self instrument') = sound_audio self
       \<and> sound_audio (set_instrument_strength self strength) = sound_audio self
       \<and> sound_audio (set_cutoff_factor self factor) = sound_audio self"
proof -
  obtain s1 d1 where sd: "(if is_playing self d then stop self d else (self, d)) = (s1, d1)"
    by (cases "if is_playing self d then stop self d else (self, d)") auto
  have s2: "s1\<lparr>sound_player := None\<rparr> = self\<lparr>sound_player := None\<rparr>"
    using sd by (auto simp: stop_def split: if_splits option.splits)
  define fs where "fs = (case fs_arg of None \<Rightarrow> sound_fs self | Some r \<Rightarrow> r)"
  define n where "n = py_int (seconds * fs)"
  define s3 where "s3 = self\<lparr>sound_player := None, sound_size := n,
                              sound_audio := replicate (nat (n * 2)) 0,
                              sound_seconds := seconds, sound_fs := fs\<rparr>"
  have fs2: "(case fs_arg of None \<Rightarrow> sound_fs (self\<lparr>sound_player := None\<rparr>) | Some r \<Rightarrow> r) = fs"
    by (simp add: fs_def split: option.splits)
  have cd: "change_duration self seconds fs_arg d =
      (if n * 2 < 0 then Raise ValueError (self\<lparr>sound_player := None, sound_size := n\<rparr>, d1)
       else case update_audio s3 of
              Return s4 \<Rightarrow> Return (s4, d1)
            | Raise e s4 \<Rightarrow> Raise e (s4, d1))"
    unfolding change_duration_def sd Let_def prod.case s2 fs2
    by (simp add: n_def s3_def)
  from ret have n0: "\<not> n * 2 < 0" and upd: "update_audio s3 = Return s'"
    unfolding cd by (auto split: if_splits outcome.splits)
  have len: "length (sound_audio s3) = 2 * nat (py_int (sound_seconds s3 * sound_fs s3))"
    using n0 by (simp add: s3_def n_def nat_mult_distrib)
  have nf: "\<forall>f. sound_instrument s3 \<noteq> Some (IFun f)"
    using nofun by (simp add: s3_def)
  from update_audio_Return [OF upd nf len] obtain frequency instrument new_audio where
    "sound_pitch s3 = Some frequency" "sound_instrument s3 = Some instrument"
    "gen_custom_freq frequency (sound_seconds s3) (sound_vol_factor s3)
       (sound_fs s3) instrument (sound_instrument_strength s3) (1 / 100) = Inr new_audio"
    "s' = s3\<lparr>sound_audio := new_audio\<rparr>"
    by blast
  then have "sound_pitch s' = Some frequency \<and> sound_instrument s' = Some instrument
      \<and> gen_custom_freq frequency (sound_seconds s') (sound_vol_factor s') (sound_fs s')
            instrument (sound_instrument_strength s') (sound_cutoff_factor s')
          = Inr (sound_audio s')"
    by (simp add: s3_def cf)
  moreover have "sound_audio (set_pitch self pitch) = sound_audio self"
    by (simp add: set_pitch_def split: pitch_arg.splits option.splits)
  moreover have "sound_audio (set_instrument self instrument') = sound_audio self"
    by (simp add: set_instrument_def split: instr_arg.splits option.splits)
  ultimately show ?thesis
    by (auto simp: set_volume_def set_instrument_strength_def set_cutoff_factor_def)
qed

theorem change_duration_regenerates_witness:
  "\<exists>frequency instrument.
     sound_pitch example_tone = Some frequency \<and> sound_instrument example_tone = Some instrument
     \<and> gen_custom_freq frequency (sound_seconds example_tone) (sound_vol_factor example_tone)
           (sound_fs example_tone) instrument (sound_instrument_strength example_tone)
           (sound_cutoff_factor example_tone)
         = Inr (sound_audio example_tone)"
proof -
  have nofun: "\<forall>f. sound_instrument example_tone \<noteq> Some (IFun f)"
    and cf: "sound_cutoff_factor example_tone = 1 / 100"
    by (simp_all add: example_tone_def)
  from change_duration_regenerates [OF change_duration_tone nofun cf]
  show ?thesis by blast
qed

theorem set_volume_keeps_buffer:
  "Sound_init (PNum (1 / 2)) 1 (1 / 5) 2 None INone (KNum 1) (1 / 100) idle_device
     = Inr (example_tone, idle_device)
   \<and> sound_pitch (set_volume example_tone (1 / 2)) = Some (FNum (1 / 2))
   \<and> sound_instrument (set_volume example_tone (1 / 2)) = Some INone
   \<and> sound_audio (set_volume example_tone (1 / 2)) = [0, 0, 153, 25]
   \<and> gen_custom_freq (FNum (1 / 2)) (sound_seconds (set_volume example_tone (1 / 2)))
         (sound_vol_factor (set_volume example_tone (1 / 2)))
         (sound_fs (set_volume example_tone (1 / 2))) INone
         (sound_instrument_strength (set_volume example_tone (1 / 2)))
         (sound_cutoff_factor (set_volume example_tone (1 / 2)))
       = Inr [0, 0, 255, 63]"
proof -
  have "gen_custom_freq (FNum (1 / 2)) 1 (1 / 2) 2 INone (KNum 1) (1 / 100) = Inr [0, 0, 255, 63]"
    by (simp add: gen_eval)
  then show ?thesis
    by (simp add: init_tone) (simp add: set_volume_def example_tone_def)
qed

subsection \<open>Setters and unknown note names\<close>

text \<open>
  Claim C10.  For every \<open>Sound\<close> object and every string that is not a key of the note
  table, \<open>set_pitch\<close> and \<open>set_instrument\<close> return the object as it was: the pitch,
  respectively the instrument, keeps its value, and nothing is raised (neither
  method has a branch that raises).
\<close>

theorem unknown_note_ignored:
  assumes "NOTE name = None"
  shows "set_pitch self (PStr name) = self \<and> set_instrument self (IStr name) = self"
  using assms by (simp add: set_pitch_def set_instrument_def)

theorem unknown_note_ignored_witness:
  "set_pitch example_tone (PStr ''H9'') = example_tone
   \<and> set_instrument example_tone (IStr ''H9'') = example_tone"
proof -
  have "NOTE ''H9'' = None" by code_simp
  then show ?thesis by (rule unknown_note_ignored)
qed

subsection \<open>Appending to and adding sequences\<close>

text \<open>
  Claim C4, as amended.  For every \<open>SoundSeq\<close> and every \<open>Sound\<close> whose sample rate
  differs from the sequence's, \<open>append\<close> returns normally, without raising, and leaves
  the sequence as it was: members, size, duration, buffer and player are unchanged,
  and the device is not touched.
\<close>

theorem seq_append_rate_mismatch:
  assumes "sound_fs s \<noteq> seq_fs self"
  shows "seq_append self (OSound s) d = Return (self, d)"
  using assms by (simp add: seq_append_def)

theorem seq_append_rate_mismatch_witness:
  "seq_append example_seq (OSound example_tone) idle_device = Return (example_seq, idle_device)"
  using seq_append_rate_mismatch [of example_tone example_seq idle_device]
  by (simp add: example_tone_def example_seq_def)

theorem seq_append_mismatch_returns:
  "sound_fs (example_click 8000) = 8000 \<and> seq_fs example_seq = 11025
   \<and> seq_append example_seq (OSound (example_click 8000)) idle_device
       = Return (example_seq, idle_device)"
  by (simp add: seq_append_def example_click_def example_seq_def)

text \<open>
  Claim C5.  The claim holds of the composition the spec describes and fails on the
  code: \<open>(A + B) + C\<close> with a \<open>Sound\<close> \<open>C\<close> raises \<open>TypeError\<close>, since
  \<open>SoundSeq.__add__\<close> adds the \<open>Sound\<close> itself, not a list of it, to the member list,
  while \<open>A + (B + C)\<close> returns the flat sequence of the three members with their buffers
  in order.
\<close>

theorem seq_add_sound_raises:
  "\<exists>ab bc abc.
     sound_add example_tone (OSound example_soft) = Inr ab
     \<and> seq_add ab (OSound example_tone) = Inl TypeError
     \<and> sound_add example_soft (OSound example_tone) = Inr bc
     \<and> sound_add example_tone (OSeq bc) = Inr abc
     \<and> seq_sounds abc = [example_tone, example_soft, example_tone]
     \<and> seq_audio abc = [0, 0, 153, 25, 0, 0, 255, 31, 0, 0, 153, 25]"
  by (simp add: seq_eval example_tone_def example_soft_def numeral_eq_Suc)

subsection \<open>Playback handles\<close>

lemma handles_ok_new: "handles_ok None d {}"
  by (simp add: handles_ok_def)

lemma handles_ok_ends: "handles_ok p d H \<Longrightarrow> handles_ok p (handle_stop h d) H"
  by (simp add: handles_ok_def handle_stop_def)

lemma handles_ok_wait: "handles_ok p d H \<Longrightarrow> handles_ok p (handle_wait_done h d) H"
  by (simp add: handles_ok_def handle_wait_done_def)

lemma play_buffer_fields:
  assumes "play_buffer audio rate d = (h, d')"
  shows "h = next_id d" "live d' = insert (next_id d) (live d)" "next_id d' = Suc (next_id d)"
  using assms by (auto simp: play_buffer_def)

lemma handles_ok_other:
  assumes ok: "handles_ok p d H" and pb: "play_buffer audio rate d = (h, d')"
  shows "handles_ok p d' H"
proof -
  note f = play_buffer_fields [OF pb]
  have lt: "\<forall>x \<in> H. x < next_id d" using ok by (simp add: handles_ok_def)
  have "\<forall>x \<in> H. x < next_id d'" using lt by (simp add: f less_Suc_eq)
  moreover have "\<forall>x \<in> H. x \<in> live d' \<longrightarrow> p = Some x"
  proof (intro ballI impI)
    fix x assume x: "x \<in> H" "x \<in> live d'"
    with lt have "x \<noteq> next_id d" by auto
    with x have "x \<in> live d" by (simp add: f)
    with ok x show "p = Some x" by (simp add: handles_ok_def)
  qed
  moreover have "set_option p \<subseteq> H" using ok by (simp add: handles_ok_def)
  ultimately show ?thesis by (simp add: handles_ok_def)
qed

lemma handles_ok_forget:
  assumes ok: "handles_ok p d H" and idle: "\<forall>h. p = Some h \<longrightarrow> h \<notin> live d"
  shows "handles_ok None d H"
proof -
  have "x \<notin> live d" if "x \<in> H" for x
  proof
    assume "x \<in> live d"
    with ok that have "p = Some x" by (simp add: handles_ok_def)
    with idle \<open>x \<in> live d\<close> show False by simp
  qed
  moreover have "\<forall>x \<in> H. x < next_id d" using ok by (simp add: handles_ok_def)
  ultimately show ?thesis by (simp add: handles_ok_def)
qed

lemma handles_ok_stopped:
  assumes "handles_ok (Some h) d H"
  shows "handles_ok None (handle_stop h d) H"
proof (rule handles_ok_forget)
  show "handles_ok (Some h) (handle_stop h d) H" using assms by (rule handles_ok_ends)
  show "\<forall>x. Some h = Some x \<longrightarrow> x \<notin> live (handle_stop h d)"
    by (simp add: handle_stop_def)
qed

lemma handles_ok_waited:
  assumes "handles_ok (Some h) d H"
  shows "handles_ok None (handle_wait_done h d) H"
proof (rule handles_ok_forget)
  show "handles_ok (Some h) (handle_wait_done h d) H" using assms by (rule handles_ok_wait)
  show "\<forall>x. Some h = Some x \<longrightarrow> x \<notin> live (handle_wait_done h d)"
    by (simp add: handle_wait_done_def)
qed

lemma handles_ok_submit:
  assumes ok: "handles_ok p d H" and idle: "\<forall>h. p = Some h \<longrightarrow> h \<notin> live d"
    and pb: "play_buffer audio rate d = (h', d')"
  shows "handles_ok (Some h') d' (H \<union> {h'})"
    and "(H \<union> {h'}) \<inter> live d' = {h'}"
proof -
  note f = play_buffer_fields [OF pb]
  have lt: "\<forall>x \<in> H. x < next_id d" using ok by (simp add: handles_ok_def)
  have dead: "x \<notin> live d" if "x \<in> H" for x
  proof
    assume "x \<in> live d"
    with ok that have "p = Some x" by (simp add: handles_ok_def)
    with idle \<open>x \<in> live d\<close> show False by simp
  qed
  have new: "h' \<notin> H" using lt f(1) by auto
  have old: "x \<notin> live d'" if "x \<in> H" for x
    using dead [OF that] new that by (auto simp: f)
  show "handles_ok (Some h') d' (H \<union> {h'})"
    unfolding handles_ok_def
  proof (intro conjI ballI impI)
    fix x assume "x \<in> H \<union> {h'}"
    then show "x < next_id d'" using lt by (auto simp: f less_Suc_eq)
  next
    fix x assume "x \<in> H \<union> {h'}" "x \<in> live d'"
    then show "Some h' = Some x" using old by auto
  next
    show "set_option (Some h') \<subseteq> H \<union> {h'}" by simp
  qed
  show "(H \<union> {h'}) \<inter> live d' = {h'}"
    using old by (auto simp: f)
qed

lemma handles_ok_card:
  assumes "handles_ok p d H"
  shows "H \<inter> live d \<subseteq> set_option p" and "card (H \<inter> live d) \<le> 1"
proof -
  show sub: "H \<inter> live d \<subseteq> set_option p"
    using assms by (auto simp: handles_ok_def)
  have "card (H \<inter> live d) \<le> card (set_option p)"
    by (rule card_mono [OF _ sub]) (cases p; simp)
  also have "\<dots> \<le> 1" by (cases p) simp_all
  finally show "card (H \<inter> live d) \<le> 1" .
qed

lemma stop_handles:
  assumes "handles_ok (sound_player s) d H" "stop s d = (s', d')"
  shows "handles_ok (sound_player s') d' H" and "sound_player s' = None"
  using assms by (auto simp: stop_def handles_ok_stopped split: option.splits)

lemma wait_done_handles:
  assumes "handles_ok (sound_player s) d H" "wait_done s d = (s', d')"
  shows "handles_ok (sound_player s') d' H"
  using assms by (auto simp: wait_done_def handles_ok_waited split: option.splits)

lemma stop_if_playing:
  assumes ok: "handles_ok (sound_player s) d H"
    and st: "(if is_playing s d then stop s d else (s, d)) = (s1, d1)"
  shows "handles_ok (sound_player s1) d1 H"
    and "\<forall>h. sound_player s1 = Some h \<longrightarrow> h \<notin> live d1"
    and "\<forall>h. sound_player s = Some h \<longrightarrow> h \<notin> live d1"
    and "next_id d1 = next_id d"
proof -
  show "handles_ok (sound_player s1) d1 H"
    using ok st stop_handles(1) [OF ok] by (auto split: if_splits)
  show "\<forall>h. sound_player s1 = Some h \<longrightarrow> h \<notin> live d1"
    using st
    by (auto simp: is_playing_def stop_def handle_is_playing_def split: if_splits option.splits)
  show "\<forall>h. sound_player s = Some h \<longrightarrow> h \<notin> live d1"
    using st
    by (auto simp: is_playing_def stop_def handle_is_playing_def handle_stop_def
        split: if_splits option.splits)
  show "next_id d1 = next_id d"
    using st by (auto simp: stop_def handle_stop_def split: if_splits option.splits)
qed

lemma play_handles:
  assumes ok: "handles_ok (sound_player s) d H" and pl: "play s d = (s', d')"
  shows "handles_ok (sound_player s') d' (H \<union> set_option (sound_player s'))"
    and "(H \<union> set_option (sound_player s')) \<inter> live d' = set_option (sound_player s')"
    and "\<forall>h. sound_player s = Some h \<longrightarrow> h \<notin> live d'"
    and "\<exists>h. sound_player s' = Some h \<and> h \<in> live d'"
proof -
  obtain s1 d1 where st: "(if is_playing s d then stop s d else (s, d)) = (s1, d1)"
    by (cases "if is_playing s d then stop s d else (s, d)") auto
  obtain h d2 where pb: "play_buffer (sound_audio s1) (sound_fs s1) d1 = (h, d2)"
    by (cases "play_buffer (sound_audio s1) (sound_fs s1) d1") auto
  from pl have s': "s' = s1\<lparr>sound_player := Some h\<rparr>" and d': "d' = d2"
    unfolding play_def st Let_def prod.case pb by auto
  note sp = stop_if_playing [OF ok st]
  note sub = handles_ok_submit [OF sp(1) sp(2) pb]
  note f = play_buffer_fields [OF pb]
  show "handles_ok (sound_player s') d' (H \<union> set_option (sound_player s'))"
    using sub(1) by (simp add: s' d')
  show "(H \<union> set_option (sound_player s')) \<inter> live d' = set_option (sound_player s')"
    using sub(2) by (simp add: s' d')
  show "\<forall>h. sound_player s = Some h \<longrightarrow> h \<notin> live d'"
  proof (intro allI impI)
    fix x assume x: "sound_player s = Some x"
    with ok have "x \<in> H" by (simp add: handles_ok_def)
    with ok have "x < next_id d" by (simp add: handles_ok_def)
    then have "x \<noteq> next_id d1" by (simp add: sp(4))
    moreover have "x \<notin> live d1" using sp(3) x by simp
    ultimately show "x \<notin> live d'" by (simp add: d' f)
  qed
  show "\<exists>h. sound_player s' = Some h \<and> h \<in> live d'"
    by (simp add: s' d' f)
qed

lemma update_audio_player:
  "update_audio x = Return y \<or> update_audio x = Raise e y \<Longrightarrow> sound_player y = sound_player x"
  by (auto simp: update_audio_def split: option.splits sum.splits prod.splits)

lemma change_duration_handles:
  assumes ok: "handles_ok (sound_player s) d H"
    and cd: "change_duration s seconds fs_arg d = Return (s', d')
             \<or> change_duration s seconds fs_arg d = Raise e (s', d')"
  shows "handles_ok (sound_player s') d' H"
proof -
  obtain s1 d1 where st: "(if is_playing s d then stop s d else (s, d)) = (s1, d1)"
    by (cases "if is_playing s d then stop s d else (s, d)") auto
  note sp = stop_if_playing [OF ok st]
  from cd have "sound_player s' = None \<and> d' = d1"
    unfolding change_duration_def st Let_def prod.case
    by (auto split: if_splits outcome.splits dest!: update_audio_player [OF disjI1]
        update_audio_player [OF disjI2])
  with handles_ok_forget [OF sp(1) sp(2)] show ?thesis by simp
qed

lemma sound_run_handles: "sound_run s d H \<Longrightarrow> handles_ok (sound_player s) d H"
proof (induction rule: sound_run.induct)
  case (run_new s d)
  then show ?case by (simp add: handles_ok_new)
next
  case (run_play s d H s' d')
  then show ?case by (simp add: play_handles(1))
next
  case (run_stop s d H s' d')
  then show ?case by (simp add: stop_handles(1))
next
  case (run_wait_done s d H s' d')
  then show ?case by (simp add: wait_done_handles)
next
  case (run_change_duration s d H seconds fs_arg s' d')
  then show ?case using change_duration_handles by blast
next
  case (run_change_duration_raise s d H seconds fs_arg e s' d')
  then show ?case using change_duration_handles by blast
next
  case (run_set_pitch s d H pitch)
  then show ?case by (simp add: set_pitch_def split: pitch_arg.splits option.splits)
next
  case (run_set_instrument s d H instrument)
  then show ?case by (simp add: set_instrument_def split: instr_arg.splits option.splits)
next
  case (run_set_volume s d H vol)
  then show ?case by (simp add: set_volume_def)
next
  case (run_set_instrument_strength s d H strength)
  then show ?case by (simp add: set_instrument_strength_def)
next
  case (run_set_cutoff_factor s d H factor)
  then show ?case by (simp add: set_cutoff_factor_def)
next
  case (run_handle_ends s d H h)
  then show ?case by (simp add: handles_ok_ends)
next
  case (run_other_submission s d H audio rate h d')
  then show ?case using handles_ok_other by blast
qed

lemma seq_stop_handles:
  assumes "handles_ok (seq_player q) d H" "seq_stop q d = (q', d')"
  shows "handles_ok (seq_player q') d' H"
  using assms by (auto simp: seq_stop_def handles_ok_stopped split: option.splits)

lemma seq_wait_done_handles:
  assumes "handles_ok (seq_player q) d H" "seq_wait_done q d = (q', d')"
  shows "handles_ok (seq_player q') d' H"
  using assms by (auto simp: seq_wait_done_def handles_ok_waited split: option.splits)

lemma seq_stop_if_playing:
  assumes ok: "handles_ok (seq_player q) d H"
    and st: "(if seq_is_playing q d then seq_stop q d else (q, d)) = (q1, d1)"
  shows "handles_ok (seq_player q1) d1 H"
    and "\<forall>h. seq_player q1 = Some h \<longrightarrow> h \<notin> live d1"
    and "\<forall>h. seq_player q = Some h \<longrightarrow> h \<notin> live d1"
    and "next_id d1 = next_id d"
proof -
  show "handles_ok (seq_player q1) d1 H"
    using ok st seq_stop_handles [OF ok] by (auto split: if_splits)
  show "\<forall>h. seq_player q1 = Some h \<longrightarrow> h \<notin> live d1"
    using st
    by (auto simp: seq_is_playing_def seq_stop_def handle_is_playing_def
        split: if_splits option.splits)
  show "\<forall>h. seq_player q = Some h \<longrightarrow> h \<notin> live d1"
    using st
    by (auto simp: seq_is_playing_def seq_stop_def handle_is_playing_def handle_stop_def
        split: if_splits option.splits)
  show "next_id d1 = next_id d"
    using st by (auto simp: seq_stop_def handle_stop_def split: if_splits option.splits)
qed

lemma seq_play_handles:
  assumes ok: "handles_ok (seq_player q) d H" and pl: "seq_play q d = (q', d')"
  shows "handles_ok (seq_player q') d' (H \<union> set_option (seq_player q'))"
    and "(H \<union> set_option (seq_player q')) \<inter> live d' = set_option (seq_player q')"
    and "\<forall>h. seq_player q = Some h \<longrightarrow> h \<notin> live d'"
    and "\<exists>h. seq_player q' = Some h \<and> h \<in> live d'"
proof -
  obtain q1 d1 where st: "(if seq_is_playing q d then seq_stop q d else (q, d)) = (q1, d1)"
    by (cases "if seq_is_playing q d then seq_stop q d else (q, d)") auto
  obtain h d2 where pb: "play_buffer (seq_audio q1) (seq_fs q1) d1 = (h, d2)"
    by (cases "play_buffer (seq_audio q1) (seq_fs q1) d1") auto
  from pl have q': "q' = q1\<lparr>seq_player := Some h\<rparr>" and d': "d' = d2"
    unfolding seq_play_def st Let_def prod.case pb by auto
  note sp = seq_stop_if_playing [OF ok st]
  note sub = handles_ok_submit [OF sp(1) sp(2) pb]
  note f = play_buffer_fields [OF pb]
  show "handles_ok (seq_player q') d' (H \<union> set_option (seq_player q'))"
    using sub(1) by (simp add: q' d')
  show "(H \<union> set_option (seq_player q')) \<inter> live d' = set_option (seq_player q')"
    using sub(2) by (simp add: q' d')
  show "\<forall>h. seq_player q = Some h \<longrightarrow> h \<notin> live d'"
  proof (intro allI impI)
    fix x assume x: "seq_player q = Some x"
    with ok have "x \<in> H" by (simp add: handles_ok_def)
    with ok have "x < next_id d" by (simp add: handles_ok_def)
    then have "x \<noteq> next_id d1" by (simp add: sp(4))
    moreover have "x \<notin> live d1" using sp(3) x by simp
    ultimately show "x \<notin> live d'" by (simp add: d' f)
  qed
  show "\<exists>h. seq_player q' = Some h \<and> h \<in> live d'"
    by (simp add: q' d' f)
qed

lemma seq_rebuild_player:
  "seq_rebuild x = Return y \<or> seq_rebuild x = Raise e y \<Longrightarrow> seq_player y = seq_player x"
  by (auto simp: seq_rebuild_def seq_update_audio_def Let_def
      split: if_splits option.splits prod.splits)

lemma seq_change_duration_handles:
  assumes ok: "handles_ok (seq_player q) d H"
    and cd: "seq_change_duration q d = Return (q', d')
             \<or> seq_change_duration q d = Raise e (q', d')"
  shows "handles_ok (seq_player q') d' H"
proof -
  obtain q1 d1 where st: "(if seq_is_playing q d then seq_stop q d else (q, d)) = (q1, d1)"
    by (cases "if seq_is_playing q d then seq_stop q d else (q, d)") auto
  note sp = seq_stop_if_playing [OF ok st]
  from cd have "seq_player q' = seq_player q1 \<and> d' = d1"
    unfolding seq_change_duration_def st Let_def prod.case
    by (auto split: outcome.splits dest!: seq_rebuild_player [OF disjI1]
        seq_rebuild_player [OF disjI2])
  with sp(1) show ?thesis by simp
qed

lemma seq_append_handles:
  assumes ok: "handles_ok (seq_player q) d H"
    and ap: "seq_append q other d = Return (q', d') \<or> seq_append q other d = Raise e (q', d')"
  shows "handles_ok (seq_player q') d' H"
proof (cases "\<exists>s. other = OSound s \<and> sound_fs s = seq_fs q")
  case True
  then obtain s where o: "other = OSound s" "sound_fs s = seq_fs q" by blast
  have ok': "handles_ok (seq_player (q\<lparr>seq_sounds := seq_sounds q @ [s]\<rparr>)) d H"
    using ok by simp
  from ap show ?thesis
    using seq_change_duration_handles [OF ok'] by (simp add: seq_append_def o)
next
  case False
  with ap have "q' = q \<and> d' = d"
    by (auto simp: seq_append_def split: operand.splits if_splits)
  with ok show ?thesis by simp
qed

lemma seq_run_handles: "seq_run q d H \<Longrightarrow> handles_ok (seq_player q) d H"
proof (induction rule: seq_run.induct)
  case (seq_new q d)
  then show ?case by (simp add: handles_ok_new)
next
  case (seq_run_play q d H q' d')
  then show ?case by (simp add: seq_play_handles(1))
next
  case (seq_run_stop q d H q' d')
  then show ?case by (simp add: seq_stop_handles)
next
  case (seq_run_wait_done q d H q' d')
  then show ?case by (simp add: seq_wait_done_handles)
next
  case (seq_run_append q d H other q' d')
  then show ?case using seq_append_handles by blast
next
  case (seq_run_append_raise q d H other e q' d')
  then show ?case using seq_append_handles by blast
next
  case (seq_run_change_duration q d H q' d')
  then show ?case using seq_change_duration_handles by blast
next
  case (seq_run_change_duration_raise q d H e q' d')
  then show ?case using seq_change_duration_handles by blast
next
  case (seq_run_handle_ends q d H h)
  then show ?case by (simp add: handles_ok_ends)
next
  case (seq_run_other_submission q d H audio rate h d')
  then show ?case using handles_ok_other by blast
qed

lemma stop_twice: "stop (fst (stop s d)) (snd (stop s d)) = stop s d"
  by (simp add: stop_def split: option.splits)

lemma stop_not_playing: "\<not> is_playing (fst (stop s d)) (snd (stop s d))"
  by (simp add: stop_def is_playing_def split: option.splits)

lemma seq_stop_twice: "seq_stop (fst (seq_stop q d)) (snd (seq_stop q d)) = seq_stop q d"
  by (simp add: seq_stop_def split: option.splits)

lemma seq_stop_not_playing: "\<not> seq_is_playing (fst (seq_stop q d)) (snd (seq_stop q d))"
  by (simp add: seq_stop_def seq_is_playing_def split: option.splits)


text \<open>Every object a constructor returns starts a run.\<close>

lemma change_duration_player:
  assumes "change_duration s seconds fs_arg d = Return (s', d')"
  shows "sound_player s' = None"
proof -
  obtain s1 d1 where st: "(if is_playing s d then stop s d else (s, d)) = (s1, d1)"
    by (cases "if is_playing s d then stop s d else (s, d)") auto
  from assms show ?thesis
    unfolding change_duration_def st Let_def prod.case
    by (auto split: if_splits outcome.splits dest!: update_audio_player [OF disjI1])
qed

lemma Sound_init_run:
  assumes "Sound_init pitch seconds vol_factor fs bg_play instrument instrument_strength
             cutoff_factor d = Inr (s, d')"
  shows "\<exists>H. sound_run s d' H"
proof -
  from assms obtain s0 s7 d1 where
    cd: "change_duration s0 seconds (Some fs) d = Return (s7, d1)" and
    res: "(case bg_play of
             None \<Rightarrow> Inr (s7, d1)
           | Some True \<Rightarrow> Inr (play s7 d1)
           | Some False \<Rightarrow> (let (s8, d2) = play s7 d1 in Inr (wait_done s8 d2)))
          = (Inr (s, d') :: py_error + sound \<times> device)"
    unfolding Sound_init_def Let_def by (auto split: outcome.splits)
  have new: "sound_run s7 d1 {}"
    using change_duration_player [OF cd] by (rule run_new)
  show ?thesis
  proof (cases bg_play)
    case None
    with res new show ?thesis by auto
  next
    case (Some b)
    obtain s8 d2 where pl: "play s7 d1 = (s8, d2)" by (cases "play s7 d1") auto
    note played = run_play [OF new pl]
    show ?thesis
    proof (cases b)
      case True
      with Some res pl played show ?thesis by auto
    next
      case False
      with Some res pl have "wait_done s8 d2 = (s, d')" by simp
      from run_wait_done [OF played this] show ?thesis by blast
    qed
  qed
qed

lemma SoundSeq_init_run:
  assumes "SoundSeq_init sounds fs = Inr q"
  shows "seq_run q d {}"
proof (rule seq_new)
  from assms show "seq_player q = None"
    unfolding SoundSeq_init_def
    by (auto split: outcome.splits dest!: seq_rebuild_player [OF disjI1])
qed

lemma play_tone:
  "play example_tone idle_device
     = (example_tone\<lparr>sound_player := Some 0\<rparr>, \<lparr>live = {0}, next_id = 1\<rparr>)"
  by (simp add: play_def is_playing_def play_buffer_def example_tone_def idle_device_def)

lemma seq_play_example:
  "seq_play example_seq idle_device
     = (example_seq\<lparr>seq_player := Some 0\<rparr>, \<lparr>live = {0}, next_id = 1\<rparr>)"
  by (simp add: seq_play_def seq_is_playing_def play_buffer_def example_seq_def idle_device_def)


text \<open>
  Claim C7.  In every run of a \<open>Sound\<close> and of a \<open>SoundSeq\<close>, at most one of the
  object's handles sounds at any time, and it is the object's player.  \<open>play\<close> on an
  object whose player sounds stops that handle first: after \<open>play\<close> the old handle is
  silent and the new one is the only handle of the object that sounds.  After \<open>stop\<close>,
  \<open>is_playing\<close> is false; a second \<open>stop\<close> changes nothing, and \<open>stop\<close> on an object
  without a player changes neither the object nor the device.
\<close>

theorem one_live_handle:
  assumes s: "sound_run s d H" and q: "seq_run q dq Hq"
  shows "card (H \<inter> live d) \<le> 1 \<and> H \<inter> live d \<subseteq> set_option (sound_player s)
       \<and> (\<forall>h. sound_player s = Some h \<longrightarrow> h \<notin> live (snd (play s d)))
       \<and> (H \<union> set_option (sound_player (fst (play s d)))) \<inter> live (snd (play s d))
           = set_option (sound_player (fst (play s d)))
       \<and> \<not> is_playing (fst (stop s d)) (snd (stop s d))
       \<and> stop (fst (stop s d)) (snd (stop s d)) = stop s d
       \<and> (sound_player s = None \<longrightarrow> stop s d = (s, d))
       \<and> card (Hq \<inter> live dq) \<le> 1 \<and> Hq \<inter> live dq \<subseteq> set_option (seq_player q)
       \<and> (\<forall>h. seq_player q = Some h \<longrightarrow> h \<notin> live (snd (seq_play q dq)))
       \<and> (Hq \<union> set_option (seq_player (fst (seq_play q dq)))) \<inter> live (snd (seq_play q dq))
           = set_option (seq_player (fst (seq_play q dq)))
       \<and> \<not> seq_is_playing (fst (seq_stop q dq)) (snd (seq_stop q dq))
       \<and> seq_stop (fst (seq_stop q dq)) (snd (seq_stop q dq)) = seq_stop q dq
       \<and> (seq_player q = None \<longrightarrow> seq_stop q dq = (q, dq))"
proof -
  note ok = sound_run_handles [OF s]
  note okq = seq_run_handles [OF q]
  have pl: "play s d = (fst (play s d), snd (play s d))" by simp
  have plq: "seq_play q dq = (fst (seq_play q dq), snd (seq_play q dq))" by simp
  have idle: "sound_player s = None \<longrightarrow> stop s d = (s, d)" by (simp add: stop_def)
  have idleq: "seq_player q = None \<longrightarrow> seq_stop q dq = (q, dq)" by (simp add: seq_stop_def)
  show ?thesis
    using handles_ok_card [OF ok] play_handles(2,3) [OF ok pl] stop_not_playing [of s d]
      stop_twice [of s d] idle
      handles_ok_card [OF okq] seq_play_handles(2,3) [OF okq plq] seq_stop_not_playing [of q dq]
      seq_stop_twice [of q dq] idleq
    by (intro conjI) assumption+
qed


theorem one_live_handle_witness:
  "card ({0} \<inter> live \<lparr>live = {0}, next_id = 1\<rparr>) \<le> 1
   \<and> 0 \<notin> live (snd (play (example_tone\<lparr>sound_player := Some 0\<rparr>) \<lparr>live = {0}, next_id = 1\<rparr>))
   \<and> 0 \<notin> live (snd (seq_play (example_seq\<lparr>seq_player := Some 0\<rparr>) \<lparr>live = {0}, next_id = 1\<rparr>))"
proof -
  have "sound_run example_tone idle_device {}"
    by (rule run_new) (simp add: example_tone_def)
  from run_play [OF this play_tone]
  have s: "sound_run (example_tone\<lparr>sound_player := Some 0\<rparr>) \<lparr>live = {0}, next_id = 1\<rparr> {0}"
    by simp
  have "seq_run example_seq idle_device {}"
    by (rule seq_new) (simp add: example_seq_def)
  from seq_run_play [OF this seq_play_example]
  have q: "seq_run (example_seq\<lparr>seq_player := Some 0\<rparr>) \<lparr>live = {0}, next_id = 1\<rparr> {0}"
    by simp
  from one_live_handle [OF s q] show ?thesis by simp
qed

end
